theory Spec2Isabelle
  imports Main "HOL-Library.Word"
begin

section \<open>Virtual try-on adapter (models/vto.py)\<close>

text \<open>
  The module wraps one remote image-generation call. \<open>generate_vto_image\<close> converts two
  image references, sends one request, stores every returned image and returns the storage
  URIs; \<open>call_virtual_try_on\<close> repackages that list in the shape of an older response.

  The functions talk to collaborators whose code lives outside the module: the client of
  the generation service, the URL converter, the image loader, the identifier generator
  and the storage writer. They are parameters of the model (the record \<open>env\<close>), and each
  may fail. Everything a call does to the outside is appended to a trace of events, each
  with the outcome the collaborator gave, so that the order and the number of the calls
  can be stated; \<open>replay\<close> below ties the trace to the collaborators and to the world.
\<close>

subsection \<open>Values\<close>

type_synonym bytes = "8 word list"

type_synonym uuid = "128 word"

text \<open>A Python exception: the name of its class and its message.\<close>

datatype error = PyError string string

definition ValueError :: "string \<Rightarrow> error" where
  "ValueError msg = PyError ''ValueError'' msg"

text \<open>
  The error of reading an attribute an object does not have, with Python's message: the
  name of the class and the name of the attribute, each between apostrophes (the
  character \<open>0x27\<close>).
\<close>

definition AttributeError :: "string \<Rightarrow> string \<Rightarrow> error" where
  "AttributeError cls attr =
     PyError ''AttributeError''
       ([CHR 0x27] @ cls @ [CHR 0x27] @ '' object has no attribute '' @ [CHR 0x27] @ attr
          @ [CHR 0x27])"

text \<open>\<open>config.default.Default\<close>: only the attribute the module reads.\<close>

record Default =
  VTO_MODEL_ID :: string

text \<open>
  The types of \<open>google.genai.types\<close>. An \<open>Image\<close> names a storage object (the field
  \<open>gcs_uri\<close> of the library, \<open>image_gcs_uri\<close> here) or carries bytes (\<open>image_bytes\<close>);
  the field \<open>mime_type\<close> of the library is \<open>image_mime_type\<close> here.
\<close>

record Image =
  image_gcs_uri :: "string option"
  image_bytes :: "bytes option"
  image_mime_type :: "string option"

record ProductImage =
  product_image :: Image

record RecontextImageSource =
  person_image :: Image
  product_images :: "ProductImage list"

record RecontextImageConfig =
  config_base_steps :: int
  config_number_of_images :: int

record recontext_call =
  model :: string
  source :: RecontextImageSource
  config :: RecontextImageConfig

text \<open>
  A generated image, as an object with attributes. The library's \<open>GeneratedImage\<close> has
  the attribute \<open>image\<close> (\<open>image_attr\<close> here) and no attribute \<open>data\<close>. The module reads
  \<open>data\<close>, so the model says of every object whether it has that attribute: \<open>data\<close> is
  \<open>None\<close> for an object without it, as the library builds them, and reading it then
  raises \<open>AttributeError\<close>.
\<close>

record GeneratedImage =
  image_attr :: "Image option"
  data :: "bytes option"

text \<open>\<open>generated_images\<close> is a list that may also be absent (Python's \<open>None\<close>).\<close>

record RecontextImageResponse =
  generated_images :: "GeneratedImage list option"

text \<open>The keyword arguments of one \<open>store_to_gcs\<close> call.\<close>

record store_call =
  folder :: string
  file_name :: string
  mime_type :: string
  contents :: bytes
  decode :: bool

text \<open>The object \<open>call_virtual_try_on\<close> returns: one attribute, a list of dicts.\<close>

record SimpleNamespace =
  predictions :: "(string \<rightharpoonup> string) list"

subsection \<open>Effects\<close>

datatype event =
    Stdout string
  | ClientInit "error + unit"
  | Convert "string option" "error + string"
  | FromFile string "error + Image"
  | Recontext recontext_call "error + RecontextImageResponse"
  | Uuid4 uuid
  | Store store_call "error + string"

text \<open>
  The state threaded through a call: the outside world, of a type the module knows
  nothing about, and the trace.
\<close>

record 'w state =
  world :: 'w
  trace :: "event list"

text \<open>
  The collaborators of the module, as parameters.
  \<^item> \<open>cfg\<close> is the module-level \<open>Default()\<close>, built once when the module is loaded; no
    call changes the environment.
  \<^item> \<open>genai_Client\<close> is \<open>genai.Client()\<close>: it builds the client or fails (it raises when
    it finds no credentials), and reads and changes the world.
  \<^item> \<open>https_url_to_gcs_uri\<close> (\<open>common.utils\<close>). Modelled from the spec: a pure function
    from a reference to a storage URI, which fails on a reference it does not recognise.
    A reference may be \<open>None\<close>, since \<open>call_virtual_try_on\<close> passes its defaults on.
  \<^item> \<open>from_file_other\<close> is what \<open>Image.from_file\<close> does with a location that does not
    start with \<open>gs://\<close> (it rewrites some URLs and reads local files): any image or a
    failure.
  \<^item> \<open>recontext_image\<close> is the method of the client: it returns a response or fails,
    and reads and changes the world.
  \<^item> \<open>uuid4\<close> is the generator of the standard library; any 128-bit value may come out.
  \<^item> \<open>store_to_gcs\<close> (\<open>common.storage\<close>). Modelled from the spec: it takes the folder,
    the file name, the content type and the bytes, and returns the storage URI of the
    object written, or fails. It reads and changes the world.
  \<^item> \<open>str_response\<close> is the text \<open>print\<close> shows for a response.
\<close>

record 'w env =
  cfg :: Default
  genai_Client :: "'w \<Rightarrow> (error + unit) \<times> 'w"
  https_url_to_gcs_uri :: "string option \<Rightarrow> error + string"
  from_file_other :: "string \<Rightarrow> 'w \<Rightarrow> (error + Image) \<times> 'w"
  recontext_image :: "recontext_call \<Rightarrow> 'w \<Rightarrow> (error + RecontextImageResponse) \<times> 'w"
  uuid4 :: "'w \<Rightarrow> uuid \<times> 'w"
  store_to_gcs :: "store_call \<Rightarrow> 'w \<Rightarrow> (error + string) \<times> 'w"
  str_response :: "RecontextImageResponse \<Rightarrow> string"

text \<open>
  \<open>Image.from_file(location=...)\<close> of the library: a location with the scheme \<open>gs\<close>
  gives the image that names this location, and nothing is read.
\<close>

definition Image_from_file :: "'w env \<Rightarrow> string \<Rightarrow> 'w \<Rightarrow> (error + Image) \<times> 'w" where
  "Image_from_file env location w =
     (if take 5 location = ''gs://''
      then (Inr \<lparr>image_gcs_uri = Some location, image_bytes = None, image_mime_type = None\<rparr>, w)
      else from_file_other env location w)"

definition emit :: "event \<Rightarrow> 'w state \<Rightarrow> 'w state" where
  "emit ev s = s\<lparr>trace := trace s @ [ev]\<rparr>"

definition py_print :: "string \<Rightarrow> 'w state \<Rightarrow> 'w state" where
  "py_print line s = emit (Stdout line) s"

definition call_genai_Client :: "'w env \<Rightarrow> 'w state \<Rightarrow> (error + unit) \<times> 'w state" where
  "call_genai_Client env s =
     (let (r, w) = genai_Client env (world s)
      in (r, emit (ClientInit r) (s\<lparr>world := w\<rparr>)))"

definition call_https_url_to_gcs_uri ::
  "'w env \<Rightarrow> string option \<Rightarrow> 'w state \<Rightarrow> (error + string) \<times> 'w state" where
  "call_https_url_to_gcs_uri env url s =
     (let r = https_url_to_gcs_uri env url in (r, emit (Convert url r) s))"

definition call_Image_from_file ::
  "'w env \<Rightarrow> string \<Rightarrow> 'w state \<Rightarrow> (error + Image) \<times> 'w state" where
  "call_Image_from_file env location s =
     (let (r, w) = Image_from_file env location (world s)
      in (r, emit (FromFile location r) (s\<lparr>world := w\<rparr>)))"

definition call_recontext_image ::
  "'w env \<Rightarrow> recontext_call \<Rightarrow> 'w state \<Rightarrow> (error + RecontextImageResponse) \<times> 'w state" where
  "call_recontext_image env req s =
     (let (r, w) = recontext_image env req (world s)
      in (r, emit (Recontext req r) (s\<lparr>world := w\<rparr>)))"

definition call_uuid4 :: "'w env \<Rightarrow> 'w state \<Rightarrow> uuid \<times> 'w state" where
  "call_uuid4 env s =
     (let (u, w) = uuid4 env (world s) in (u, emit (Uuid4 u) (s\<lparr>world := w\<rparr>)))"

definition call_store_to_gcs ::
  "'w env \<Rightarrow> store_call \<Rightarrow> 'w state \<Rightarrow> (error + string) \<times> 'w state" where
  "call_store_to_gcs env c s =
     (let (r, w) = store_to_gcs env c (world s)
      in (r, emit (Store c r) (s\<lparr>world := w\<rparr>)))"

subsection \<open>Formatting\<close>

text \<open>What an f-string shows for a reference: the string itself, or \<open>None\<close>.\<close>

definition format_ref :: "string option \<Rightarrow> string" where
  "format_ref url = (case url of None \<Rightarrow> ''None'' | Some u \<Rightarrow> u)"

text \<open>\<open>str\<close> of a non-negative integer: its decimal digits.\<close>

definition digit_char :: "nat \<Rightarrow> char" where
  "digit_char d = ''0123456789'' ! d"

fun str_nat :: "nat \<Rightarrow> string" where
  "str_nat n = (if n < 10 then [digit_char n] else str_nat (n div 10) @ [digit_char (n mod 10)])"

declare str_nat.simps [simp del]

text \<open>
  \<open>str\<close> of a UUID: the 32 lower-case hexadecimal digits of its 128 bits, in groups of
  8, 4, 4, 4 and 12 separated by hyphens.
\<close>

definition hex_char :: "nat \<Rightarrow> char" where
  "hex_char d = ''0123456789abcdef'' ! d"

definition hex32 :: "nat \<Rightarrow> string" where
  "hex32 n = map (\<lambda>k. hex_char ((n div 16 ^ (31 - k)) mod 16)) [0..<32]"

definition str_uuid :: "uuid \<Rightarrow> string" where
  "str_uuid u =
     (let hex = hex32 (unat u)
      in take 8 hex @ ''-'' @ take 4 (drop 8 hex) @ ''-'' @ take 4 (drop 12 hex) @ ''-''
         @ take 4 (drop 16 hex) @ ''-'' @ drop 20 hex)"

subsection \<open>generate_vto_image\<close>

text \<open>
  The loop over \<open>enumerate(response.generated_images)\<close>: \<open>i\<close> is the index of the next
  image, \<open>gcs_uris\<close> the list built so far. In each round the identifier is drawn first;
  then the arguments of \<open>store_to_gcs\<close> are evaluated, where reading \<open>data\<close> fails on an
  object without that attribute; then the writer is called. A failure ends the loop.
\<close>

fun store_results ::
  "'w env \<Rightarrow> nat \<Rightarrow> GeneratedImage list \<Rightarrow> string list \<Rightarrow> 'w state
     \<Rightarrow> (error + string list) \<times> 'w state" where
  "store_results env i [] gcs_uris s = (Inr gcs_uris, s)"
| "store_results env i (generated_image # rest) gcs_uris s =
     (let (unique_id, s1) = call_uuid4 env s
      in case data generated_image of
           None \<Rightarrow> (Inl (AttributeError ''GeneratedImage'' ''data''), s1)
         | Some image_data \<Rightarrow>
      (case call_store_to_gcs env
                \<lparr>folder = ''vto_results'',
                 file_name = ''vto_result_'' @ str_uuid unique_id @ ''-'' @ str_nat i @ ''_.png'',
                 mime_type = ''image/png'',
                 contents = image_data,
                 decode = False\<rparr> s1 of
           (Inl e, s2) \<Rightarrow> (Inl e, s2)
         | (Inr gcs_uri, s2) \<Rightarrow> store_results env (Suc i) rest (gcs_uris @ [gcs_uri]) s2))"

definition generate_vto_image ::
  "'w env \<Rightarrow> string option \<Rightarrow> string option \<Rightarrow> int \<Rightarrow> int \<Rightarrow> 'w state
     \<Rightarrow> (error + string list) \<times> 'w state" where
  "generate_vto_image env person_gcs_url product_gcs_url sample_count base_steps s0 =
     (let s1 = py_print ''--- VTO GenAI Request ---'' s0;
          s2 = py_print (''Person Image: '' @ format_ref person_gcs_url) s1;
          s3 = py_print (''Product Image: '' @ format_ref product_gcs_url) s2;
          s4 = py_print (''Model: '' @ VTO_MODEL_ID (cfg env)) s3;
          s5 = py_print ''-------------------------'' s4
      in case call_genai_Client env s5 of
           (Inl e, s6) \<Rightarrow> (Inl e, s6)
         | (Inr client, s6) \<Rightarrow>
      (case call_https_url_to_gcs_uri env person_gcs_url s6 of
           (Inl e, s7) \<Rightarrow> (Inl e, s7)
         | (Inr person_gcs_uri, s7) \<Rightarrow>
      (case call_https_url_to_gcs_uri env product_gcs_url s7 of
           (Inl e, s8) \<Rightarrow> (Inl e, s8)
         | (Inr product_gcs_uri, s8) \<Rightarrow>
      (case call_Image_from_file env person_gcs_uri s8 of
           (Inl e, s9) \<Rightarrow> (Inl e, s9)
         | (Inr person_img, s9) \<Rightarrow>
      (case call_Image_from_file env product_gcs_uri s9 of
           (Inl e, s10) \<Rightarrow> (Inl e, s10)
         | (Inr product_img, s10) \<Rightarrow>
      (case call_recontext_image env
              \<lparr>model = VTO_MODEL_ID (cfg env),
               source = \<lparr>person_image = person_img,
                         product_images = [\<lparr>product_image = product_img\<rparr>]\<rparr>,
               config = \<lparr>config_base_steps = base_steps,
                         config_number_of_images = sample_count\<rparr>\<rparr> s10 of
           (Inl e, s11) \<Rightarrow> (Inl e, s11)
         | (Inr response, s11) \<Rightarrow>
      (let s12 = py_print ''--- VTO GenAI Response ---'' s11;
           s13 = py_print (str_response env response) s12;
           s14 = py_print ''------------------------'' s13
       in case generated_images response of
            None \<Rightarrow> (Inl (ValueError ''VTO API returned no generated images.''), s14)
          | Some [] \<Rightarrow> (Inl (ValueError ''VTO API returned no generated images.''), s14)
          | Some (generated_image # rest) \<Rightarrow>
              store_results env 0 (generated_image # rest) [] s14)))))))"

subsection \<open>call_virtual_try_on\<close>

text \<open>
  \<open>sample_count\<close> is \<open>None\<close> when the caller leaves the argument out; the default of the
  signature then applies. The two references default to Python's \<open>None\<close>, so leaving
  one out and passing \<open>None\<close> are the same.
\<close>

definition call_virtual_try_on ::
  "'w env \<Rightarrow> string option \<Rightarrow> string option \<Rightarrow> int option \<Rightarrow> 'w state
     \<Rightarrow> (error + SimpleNamespace) \<times> 'w state" where
  "call_virtual_try_on env person_image_uri product_image_uri sample_count s =
     (case generate_vto_image env person_image_uri product_image_uri
             (case sample_count of None \<Rightarrow> 1 | Some n \<Rightarrow> n) 32 s of
        (Inl e, s') \<Rightarrow> (Inl e, s')
      | (Inr gcs_uris, s') \<Rightarrow>
          (Inr \<lparr>predictions = map (\<lambda>uri. [''gcsUri'' \<mapsto> uri]) gcs_uris\<rparr>, s'))"

subsection \<open>Reading a trace\<close>

definition emitted :: "'w state \<Rightarrow> 'w state \<Rightarrow> event list" where
  "emitted s s' = drop (length (trace s)) (trace s')"

fun requests :: "event list \<Rightarrow> (recontext_call \<times> (error + RecontextImageResponse)) list" where
  "requests [] = []"
| "requests (Recontext req r # evs) = (req, r) # requests evs"
| "requests (_ # evs) = requests evs"

fun writes :: "event list \<Rightarrow> (store_call \<times> (error + string)) list" where
  "writes [] = []"
| "writes (Store c r # evs) = (c, r) # writes evs"
| "writes (_ # evs) = writes evs"

fun identifiers :: "event list \<Rightarrow> uuid list" where
  "identifiers [] = []"
| "identifiers (Uuid4 u # evs) = u # identifiers evs"
| "identifiers (_ # evs) = identifiers evs"

fun conversions :: "event list \<Rightarrow> (string option \<times> (error + string)) list" where
  "conversions [] = []"
| "conversions (Convert url r # evs) = (url, r) # conversions evs"
| "conversions (_ # evs) = conversions evs"

fun loads :: "event list \<Rightarrow> (string \<times> (error + Image)) list" where
  "loads [] = []"
| "loads (FromFile location r # evs) = (location, r) # loads evs"
| "loads (_ # evs) = loads evs"

fun clients :: "event list \<Rightarrow> (error + unit) list" where
  "clients [] = []"
| "clients (ClientInit r # evs) = r # clients evs"
| "clients (_ # evs) = clients evs"

text \<open>
  \<open>replay\<close> runs a trace against the collaborators: starting from a world, every event
  must carry the outcome its collaborator gives in the world reached so far, and the
  collaborator's new world is the one the next event sees. The result is the last world,
  or \<open>None\<close> when an event does not fit.
\<close>

fun replay :: "'w env \<Rightarrow> event list \<Rightarrow> 'w \<Rightarrow> 'w option" where
  "replay env [] w = Some w"
| "replay env (Stdout line # evs) w = replay env evs w"
| "replay env (ClientInit r # evs) w =
     (if fst (genai_Client env w) = r then replay env evs (snd (genai_Client env w)) else None)"
| "replay env (Convert url r # evs) w =
     (if https_url_to_gcs_uri env url = r then replay env evs w else None)"
| "replay env (FromFile location r # evs) w =
     (if fst (Image_from_file env location w) = r
      then replay env evs (snd (Image_from_file env location w)) else None)"
| "replay env (Recontext req r # evs) w =
     (if fst (recontext_image env req w) = r
      then replay env evs (snd (recontext_image env req w)) else None)"
| "replay env (Uuid4 u # evs) w =
     (if fst (uuid4 env w) = u then replay env evs (snd (uuid4 env w)) else None)"
| "replay env (Store c r # evs) w =
     (if fst (store_to_gcs env c w) = r
      then replay env evs (snd (store_to_gcs env c w)) else None)"

text \<open>
  The events every call starts with (the request banner) and the ones that follow a
  response (the response banner), named for the lemmas below.
\<close>

definition prologue :: "'w env \<Rightarrow> string option \<Rightarrow> string option \<Rightarrow> event list" where
  "prologue env person_gcs_url product_gcs_url =
     [Stdout ''--- VTO GenAI Request ---'',
      Stdout (''Person Image: '' @ format_ref person_gcs_url),
      Stdout (''Product Image: '' @ format_ref product_gcs_url),
      Stdout (''Model: '' @ VTO_MODEL_ID (cfg env)),
      Stdout ''-------------------------'']"

definition epilogue :: "'w env \<Rightarrow> RecontextImageResponse \<Rightarrow> event list" where
  "epilogue env response =
     [Stdout ''--- VTO GenAI Response ---'',
      Stdout (str_response env response),
      Stdout ''------------------------'']"

text \<open>
  The arguments of the write for image \<open>i\<close> with identifier \<open>u\<close>: the image has the
  attribute \<open>data\<close>, and its bytes are the contents.
\<close>

definition vto_write :: "nat \<Rightarrow> uuid \<Rightarrow> GeneratedImage \<Rightarrow> store_call \<Rightarrow> bool" where
  "vto_write i u img c \<longleftrightarrow>
     (\<exists>image_data. data img = Some image_data
        \<and> c = \<lparr>folder = ''vto_results'',
                file_name = ''vto_result_'' @ str_uuid u @ ''-'' @ str_nat i @ ''_.png'',
                mime_type = ''image/png'',
                contents = image_data,
                decode = False\<rparr>)"

subsection \<open>Stand-ins for the collaborators\<close>

text \<open>
  A concrete environment for the examples. The world is the number of writes made so far.
  The client is created; the converter knows one form, \<open>https://...\<close>; no local file
  exists; the service answers every request with the given images; the identifier
  generator returns the same value every time; the writer refuses the contents listed in
  \<open>bad\<close> and stores everything else.
\<close>

definition stub_convert :: "string option \<Rightarrow> error + string" where
  "stub_convert url =
     (case url of
        None \<Rightarrow> Inl (PyError ''ConversionError'' ''None'')
      | Some u \<Rightarrow>
          if take 8 u = ''https://'' then Inr (''gs://'' @ drop 8 u)
          else Inl (PyError ''ConversionError'' u))"

definition stub_env :: "GeneratedImage list option \<Rightarrow> bytes list \<Rightarrow> nat env" where
  "stub_env imgs bad =
     \<lparr>cfg = \<lparr>VTO_MODEL_ID = ''vto-model''\<rparr>,
      genai_Client = (\<lambda>w. (Inr (), w)),
      https_url_to_gcs_uri = stub_convert,
      from_file_other = (\<lambda>location w. (Inl (PyError ''FileNotFoundError'' location), w)),
      recontext_image = (\<lambda>req w. (Inr \<lparr>generated_images = imgs\<rparr>, w)),
      uuid4 = (\<lambda>w. (0, w)),
      store_to_gcs = (\<lambda>c w.
         (if contents c \<in> set bad then Inl (PyError ''StorageWriteError'' (file_name c))
          else Inr (''gs://bucket/'' @ folder c @ ''/'' @ file_name c), Suc w)),
      str_response = (\<lambda>response. ''response'')\<rparr>"

text \<open>The same with a generator whose identifier is the number of writes made so far.\<close>

definition counting_env :: "GeneratedImage list option \<Rightarrow> bytes list \<Rightarrow> nat env" where
  "counting_env imgs bad = (stub_env imgs bad)\<lparr>uuid4 := (\<lambda>w. (of_nat w, w))\<rparr>"

text \<open>The same without credentials: the client cannot be created.\<close>

definition no_client_env :: "GeneratedImage list option \<Rightarrow> bytes list \<Rightarrow> nat env" where
  "no_client_env imgs bad =
     (stub_env imgs bad)\<lparr>genai_Client :=
        (\<lambda>w. (Inl (ValueError ''Missing key inputs argument!''), w))\<rparr>"

text \<open>Three objects that have the attribute \<open>data\<close>.\<close>

definition three_images :: "GeneratedImage list" where
  "three_images =
     [\<lparr>image_attr = None, data = Some [1]\<rparr>,
      \<lparr>image_attr = None, data = Some [2]\<rparr>,
      \<lparr>image_attr = None, data = Some [3]\<rparr>]"

text \<open>An image as the library builds it: the bytes are in \<open>image\<close>, and there is no \<open>data\<close>.\<close>

definition library_image :: "bytes \<Rightarrow> GeneratedImage" where
  "library_image image_data =
     \<lparr>image_attr = Some \<lparr>image_gcs_uri = None, image_bytes = Some image_data,
                          image_mime_type = Some ''image/png''\<rparr>,
      data = None\<rparr>"

definition start :: "nat state" where
  "start = \<lparr>world = 0, trace = []\<rparr>"

section \<open>Lemmas\<close>

subsection \<open>The single steps\<close>

lemma trace_emit [simp]: "trace (emit ev s) = trace s @ [ev]"
  by (simp add: emit_def)

lemma world_emit [simp]: "world (emit ev s) = world s"
  by (simp add: emit_def)

lemma trace_py_print [simp]: "trace (py_print line s) = trace s @ [Stdout line]"
  by (simp add: py_print_def)

lemma world_py_print [simp]: "world (py_print line s) = world s"
  by (simp add: py_print_def)

lemma call_genai_Client_step:
  "call_genai_Client env s = (r, s') \<Longrightarrow>
     trace s' = trace s @ [ClientInit r] \<and> genai_Client env (world s) = (r, world s')"
  by (auto simp: call_genai_Client_def split: prod.splits)

lemma call_https_url_to_gcs_uri_step:
  "call_https_url_to_gcs_uri env url s = (r, s') \<Longrightarrow>
     r = https_url_to_gcs_uri env url \<and> trace s' = trace s @ [Convert url r]
     \<and> world s' = world s"
  by (auto simp: call_https_url_to_gcs_uri_def Let_def)

lemma call_Image_from_file_step:
  "call_Image_from_file env location s = (r, s') \<Longrightarrow>
     trace s' = trace s @ [FromFile location r]
     \<and> Image_from_file env location (world s) = (r, world s')"
  by (auto simp: call_Image_from_file_def split: prod.splits)

lemma call_recontext_image_step:
  "call_recontext_image env req s = (r, s') \<Longrightarrow>
     trace s' = trace s @ [Recontext req r] \<and> recontext_image env req (world s) = (r, world s')"
  by (auto simp: call_recontext_image_def split: prod.splits)

lemma call_uuid4_step:
  "call_uuid4 env s = (u, s') \<Longrightarrow>
     trace s' = trace s @ [Uuid4 u] \<and> uuid4 env (world s) = (u, world s')"
  by (auto simp: call_uuid4_def split: prod.splits)

lemma call_store_to_gcs_step:
  "call_store_to_gcs env c s = (r, s') \<Longrightarrow>
     trace s' = trace s @ [Store c r] \<and> store_to_gcs env c (world s) = (r, world s')"
  by (auto simp: call_store_to_gcs_def split: prod.splits)

subsection \<open>Reading and replaying traces\<close>

lemma emitted_eq: "trace s' = trace s @ evs \<Longrightarrow> emitted s s' = evs"
  by (simp add: emitted_def)

lemma requests_append [simp]: "requests (xs @ ys) = requests xs @ requests ys"
  by (induction xs rule: requests.induct) simp_all

lemma writes_append [simp]: "writes (xs @ ys) = writes xs @ writes ys"
  by (induction xs rule: writes.induct) simp_all

lemma identifiers_append [simp]: "identifiers (xs @ ys) = identifiers xs @ identifiers ys"
  by (induction xs rule: identifiers.induct) simp_all

lemma conversions_append [simp]: "conversions (xs @ ys) = conversions xs @ conversions ys"
  by (induction xs rule: conversions.induct) simp_all

lemma loads_append [simp]: "loads (xs @ ys) = loads xs @ loads ys"
  by (induction xs rule: loads.induct) simp_all

lemma clients_append [simp]: "clients (xs @ ys) = clients xs @ clients ys"
  by (induction xs rule: clients.induct) simp_all

lemma replay_append:
  "replay env (xs @ ys) w = (case replay env xs w of None \<Rightarrow> None | Some w' \<Rightarrow> replay env ys w')"
  by (induction env xs w rule: replay.induct) simp_all

lemma replay_then:
  "replay env xs w = Some w1 \<Longrightarrow> replay env ys w1 = Some w2 \<Longrightarrow> replay env (xs @ ys) w = Some w2"
  by (simp add: replay_append)

lemma writes_prologue [simp]: "writes (prologue env p q) = []"
  and identifiers_prologue [simp]: "identifiers (prologue env p q) = []"
  and requests_prologue [simp]: "requests (prologue env p q) = []"
  and conversions_prologue [simp]: "conversions (prologue env p q) = []"
  and loads_prologue [simp]: "loads (prologue env p q) = []"
  and clients_prologue [simp]: "clients (prologue env p q) = []"
  and replay_prologue [simp]: "replay env (prologue env p q) w = Some w"
  by (simp_all add: prologue_def)

lemma writes_epilogue [simp]: "writes (epilogue env response) = []"
  and identifiers_epilogue [simp]: "identifiers (epilogue env response) = []"
  and requests_epilogue [simp]: "requests (epilogue env response) = []"
  and conversions_epilogue [simp]: "conversions (epilogue env response) = []"
  and loads_epilogue [simp]: "loads (epilogue env response) = []"
  and clients_epilogue [simp]: "clients (epilogue env response) = []"
  and replay_epilogue [simp]: "replay env (epilogue env response) w = Some w"
  by (simp_all add: epilogue_def)

subsection \<open>The loop\<close>

lemma store_results_run:
  "store_results env i imgs acc s = (r, s') \<Longrightarrow>
   \<exists>evs. trace s' = trace s @ evs
     \<and> replay env evs (world s) = Some (world s')
     \<and> requests evs = [] \<and> conversions evs = [] \<and> loads evs = [] \<and> clients evs = []
     \<and> evs = concat (map (\<lambda>(u, c, out). [Uuid4 u, Store c out])
                      (zip (identifiers evs) (writes evs)))
             @ map Uuid4 (drop (length (writes evs)) (identifiers evs))
     \<and> length (writes evs) \<le> length imgs
     \<and> (\<forall>j < length (writes evs).
           vto_write (i + j) (identifiers evs ! j) (imgs ! j) (fst (writes evs ! j)))
     \<and> (case r of
           Inr uris \<Rightarrow>
             \<exists>new. uris = acc @ new \<and> map snd (writes evs) = map Inr new
                   \<and> length new = length imgs
                   \<and> length (identifiers evs) = length (writes evs)
         | Inl e \<Rightarrow>
             (\<exists>oks. map snd (writes evs) = map Inr oks @ [Inl e]
                   \<and> length oks < length imgs
                   \<and> length (identifiers evs) = length (writes evs))
           \<or> (e = AttributeError ''GeneratedImage'' ''data''
               \<and> (\<exists>oks. map snd (writes evs) = map Inr oks)
               \<and> length (writes evs) < length imgs
               \<and> data (imgs ! length (writes evs)) = None
               \<and> length (identifiers evs) = Suc (length (writes evs))))"
proof (induction imgs arbitrary: i acc s)
  case Nil
  then show ?case by (intro exI[of _ "[]"]) auto
next
  case (Cons img rest)
  obtain u s1 where u: "call_uuid4 env s = (u, s1)" by (cases "call_uuid4 env s")
  note u1 = call_uuid4_step[OF u]
  show ?case
  proof (cases "data img")
    case None
    with Cons.prems u have res: "r = Inl (AttributeError ''GeneratedImage'' ''data'')" "s' = s1"
      by auto
    have "map snd (writes [Uuid4 u]) = map Inr []" by simp
    with res u1 None show ?thesis
      by (intro exI[of _ "[Uuid4 u]"]) auto
  next
    case (Some image_data)
    let ?c = "\<lparr>folder = ''vto_results'',
                 file_name = ''vto_result_'' @ str_uuid u @ ''-'' @ str_nat i @ ''_.png'',
                 mime_type = ''image/png'',
                 contents = image_data,
                 decode = False\<rparr>"
    obtain out s2 where st: "call_store_to_gcs env ?c s1 = (out, s2)"
      by (cases "call_store_to_gcs env ?c s1")
    note st1 = call_store_to_gcs_step[OF st]
    have t2: "trace s2 = trace s @ [Uuid4 u, Store ?c out]"
      using u1 st1 by simp
    have rp2: "replay env [Uuid4 u, Store ?c out] (world s) = Some (world s2)"
      using u1 st1 by simp
    have vw: "vto_write i u img ?c"
      using Some by (simp add: vto_write_def)
    show ?thesis
    proof (cases out)
      case (Inl e)
      with Cons.prems u st Some have res: "r = Inl e" "s' = s2" by auto
      have "map snd (writes [Uuid4 u, Store ?c out]) = map Inr [] @ [Inl e]"
        using Inl by simp
      then have "\<exists>oks. map snd (writes [Uuid4 u, Store ?c out]) = map Inr oks @ [Inl e]
                   \<and> length oks < length (img # rest)
                   \<and> length (identifiers [Uuid4 u, Store ?c out])
                       = length (writes [Uuid4 u, Store ?c out])"
        by (intro exI[of _ "[]"]) simp
      with res t2 rp2 vw show ?thesis
        by (intro exI[of _ "[Uuid4 u, Store ?c out]"]) (simp del: replay.simps)
    next
      case (Inr uri)
      with Cons.prems u st Some
      have rec: "store_results env (Suc i) rest (acc @ [uri]) s2 = (r, s')"
        by auto
      from Cons.IH[OF rec] obtain evs where evs:
        "trace s' = trace s2 @ evs"
        "replay env evs (world s2) = Some (world s')"
        "requests evs = [] \<and> conversions evs = [] \<and> loads evs = [] \<and> clients evs = []"
        "evs = concat (map (\<lambda>(u, c, out). [Uuid4 u, Store c out])
                      (zip (identifiers evs) (writes evs)))
             @ map Uuid4 (drop (length (writes evs)) (identifiers evs))"
        "length (writes evs) \<le> length rest"
        "\<forall>j < length (writes evs).
           vto_write (Suc i + j) (identifiers evs ! j) (rest ! j) (fst (writes evs ! j))"
        "(case r of
           Inr uris \<Rightarrow>
             \<exists>new. uris = (acc @ [uri]) @ new \<and> map snd (writes evs) = map Inr new
                   \<and> length new = length rest
                   \<and> length (identifiers evs) = length (writes evs)
         | Inl e \<Rightarrow>
             (\<exists>oks. map snd (writes evs) = map Inr oks @ [Inl e]
                   \<and> length oks < length rest
                   \<and> length (identifiers evs) = length (writes evs))
           \<or> (e = AttributeError ''GeneratedImage'' ''data''
               \<and> (\<exists>oks. map snd (writes evs) = map Inr oks)
               \<and> length (writes evs) < length rest
               \<and> data (rest ! length (writes evs)) = None
               \<and> length (identifiers evs) = Suc (length (writes evs))))"
        by blast
      let ?evs = "[Uuid4 u, Store ?c out] @ evs"
      have 1: "trace s' = trace s @ ?evs" using evs(1) t2 by simp
      have 2: "replay env ?evs (world s) = Some (world s')"
        using replay_then[OF rp2 evs(2)] .
      have 3: "requests ?evs = [] \<and> conversions ?evs = [] \<and> loads ?evs = [] \<and> clients ?evs = []"
        using evs(3) by simp
      have 4: "?evs = concat (map (\<lambda>(u, c, out). [Uuid4 u, Store c out])
                      (zip (identifiers ?evs) (writes ?evs)))
             @ map Uuid4 (drop (length (writes ?evs)) (identifiers ?evs))"
        using evs(4) by simp
      have 5: "length (writes ?evs) \<le> length (img # rest)" using evs(5) by simp
      have 6: "\<forall>j < length (writes ?evs).
           vto_write (i + j) (identifiers ?evs ! j) ((img # rest) ! j) (fst (writes ?evs ! j))"
      proof (intro allI impI)
        fix j assume j: "j < length (writes ?evs)"
        show "vto_write (i + j) (identifiers ?evs ! j) ((img # rest) ! j) (fst (writes ?evs ! j))"
        proof (cases j)
          case 0
          with vw show ?thesis by simp
        next
          case (Suc j')
          with j have "j' < length (writes evs)" by simp
          with evs(6) have "vto_write (Suc i + j') (identifiers evs ! j') (rest ! j')
                              (fst (writes evs ! j'))"
            by blast
          with Suc show ?thesis by simp
        qed
      qed
      have 7: "(case r of
           Inr uris \<Rightarrow>
             \<exists>new. uris = acc @ new \<and> map snd (writes ?evs) = map Inr new
                   \<and> length new = length (img # rest)
                   \<and> length (identifiers ?evs) = length (writes ?evs)
         | Inl e \<Rightarrow>
             (\<exists>oks. map snd (writes ?evs) = map Inr oks @ [Inl e]
                   \<and> length oks < length (img # rest)
                   \<and> length (identifiers ?evs) = length (writes ?evs))
           \<or> (e = AttributeError ''GeneratedImage'' ''data''
               \<and> (\<exists>oks. map snd (writes ?evs) = map Inr oks)
               \<and> length (writes ?evs) < length (img # rest)
               \<and> data ((img # rest) ! length (writes ?evs)) = None
               \<and> length (identifiers ?evs) = Suc (length (writes ?evs))))"
      proof (cases r)
        case r: (Inr uris)
        with evs(7) obtain new where new: "uris = (acc @ [uri]) @ new"
          "map snd (writes evs) = map Inr new" "length new = length rest"
          "length (identifiers evs) = length (writes evs)"
          by auto
        then have "\<exists>new'. uris = acc @ new' \<and> map snd (writes ?evs) = map Inr new'
                   \<and> length new' = length (img # rest)
                   \<and> length (identifiers ?evs) = length (writes ?evs)"
          using Inr by (intro exI[of _ "uri # new"]) simp
        then show ?thesis using r by simp
      next
        case l: (Inl e)
        from evs(7) l consider
          (wfail) oks where "map snd (writes evs) = map Inr oks @ [Inl e]"
            "length oks < length rest" "length (identifiers evs) = length (writes evs)"
        | (attr) oks where "e = AttributeError ''GeneratedImage'' ''data''"
            "map snd (writes evs) = map Inr oks" "length (writes evs) < length rest"
            "data (rest ! length (writes evs)) = None"
            "length (identifiers evs) = Suc (length (writes evs))"
          by auto
        then show ?thesis
        proof cases
          case wfail
          then have "\<exists>oks'. map snd (writes ?evs) = map Inr oks' @ [Inl e]
                   \<and> length oks' < length (img # rest)
                   \<and> length (identifiers ?evs) = length (writes ?evs)"
            using Inr by (intro exI[of _ "uri # oks"]) simp
          then show ?thesis using l by simp
        next
          case attr
          then have "\<exists>oks'. map snd (writes ?evs) = map Inr oks'"
            using Inr by (intro exI[of _ "uri # oks"]) simp
          with attr show ?thesis using l by simp
        qed
      qed
      show ?thesis using 1 2 3 4 5 6 7 by blast
    qed
  qed
qed

subsection \<open>The paths through generate_vto_image\<close>

lemma Image_from_file_gs:
  "take 5 location = ''gs://'' \<Longrightarrow>
     Image_from_file env location w
       = (Inr \<lparr>image_gcs_uri = Some location, image_bytes = None, image_mime_type = None\<rparr>, w)"
  by (simp add: Image_from_file_def)

lemma replay_ClientInit:
  "genai_Client env w = (r, w') \<Longrightarrow> replay env [ClientInit r] w = Some w'"
  by simp

lemma replay_Convert:
  "r = https_url_to_gcs_uri env url \<Longrightarrow> replay env [Convert url r] w = Some w"
  by simp

lemma replay_FromFile:
  "Image_from_file env location w = (r, w') \<Longrightarrow> replay env [FromFile location r] w = Some w'"
  by simp

lemma replay_Recontext:
  "recontext_image env req w = (r, w') \<Longrightarrow> replay env [Recontext req r] w = Some w'"
  by simp

lemma generate_vto_image_paths [consumes 1, case_names client_fails person_fails
    product_fails person_load_fails product_load_fails service_fails no_images stored]:
  assumes run: "generate_vto_image env p q sc bs s = (r, s')"
  obtains
    e where "genai_Client env (world s) = (Inl e, world s')" "r = Inl e"
      "replay env (emitted s s') (world s) = Some (world s')"
      "clients (emitted s s') = [Inl e]" "conversions (emitted s s') = []"
      "loads (emitted s s') = []" "requests (emitted s s') = []"
      "identifiers (emitted s s') = []" "writes (emitted s s') = []"
  | e where "genai_Client env (world s) = (Inr (), world s')"
      "https_url_to_gcs_uri env p = Inl e" "r = Inl e"
      "replay env (emitted s s') (world s) = Some (world s')"
      "clients (emitted s s') = [Inr ()]" "conversions (emitted s s') = [(p, Inl e)]"
      "loads (emitted s s') = []" "requests (emitted s s') = []"
      "identifiers (emitted s s') = []" "writes (emitted s s') = []"
  | pu e where "genai_Client env (world s) = (Inr (), world s')"
      "https_url_to_gcs_uri env p = Inr pu" "https_url_to_gcs_uri env q = Inl e" "r = Inl e"
      "replay env (emitted s s') (world s) = Some (world s')"
      "clients (emitted s s') = [Inr ()]"
      "conversions (emitted s s') = [(p, Inr pu), (q, Inl e)]"
      "loads (emitted s s') = []" "requests (emitted s s') = []"
      "identifiers (emitted s s') = []" "writes (emitted s s') = []"
  | w1 pu qu e where "genai_Client env (world s) = (Inr (), w1)"
      "https_url_to_gcs_uri env p = Inr pu" "https_url_to_gcs_uri env q = Inr qu"
      "Image_from_file env pu w1 = (Inl e, world s')" "r = Inl e"
      "replay env (emitted s s') (world s) = Some (world s')"
      "clients (emitted s s') = [Inr ()]"
      "conversions (emitted s s') = [(p, Inr pu), (q, Inr qu)]"
      "loads (emitted s s') = [(pu, Inl e)]" "requests (emitted s s') = []"
      "identifiers (emitted s s') = []" "writes (emitted s s') = []"
  | w1 w2 pu qu img1 e where "genai_Client env (world s) = (Inr (), w1)"
      "https_url_to_gcs_uri env p = Inr pu" "https_url_to_gcs_uri env q = Inr qu"
      "Image_from_file env pu w1 = (Inr img1, w2)"
      "Image_from_file env qu w2 = (Inl e, world s')" "r = Inl e"
      "replay env (emitted s s') (world s) = Some (world s')"
      "clients (emitted s s') = [Inr ()]"
      "conversions (emitted s s') = [(p, Inr pu), (q, Inr qu)]"
      "loads (emitted s s') = [(pu, Inr img1), (qu, Inl e)]" "requests (emitted s s') = []"
      "identifiers (emitted s s') = []" "writes (emitted s s') = []"
  | w1 w2 w3 pu qu img1 img2 e where "genai_Client env (world s) = (Inr (), w1)"
      "https_url_to_gcs_uri env p = Inr pu" "https_url_to_gcs_uri env q = Inr qu"
      "Image_from_file env pu w1 = (Inr img1, w2)"
      "Image_from_file env qu w2 = (Inr img2, w3)" "r = Inl e"
      "replay env (emitted s s') (world s) = Some (world s')"
      "clients (emitted s s') = [Inr ()]"
      "conversions (emitted s s') = [(p, Inr pu), (q, Inr qu)]"
      "loads (emitted s s') = [(pu, Inr img1), (qu, Inr img2)]"
      "requests (emitted s s') =
         [(\<lparr>model = VTO_MODEL_ID (cfg env),
            source = \<lparr>person_image = img1, product_images = [\<lparr>product_image = img2\<rparr>]\<rparr>,
            config = \<lparr>config_base_steps = bs, config_number_of_images = sc\<rparr>\<rparr>, Inl e)]"
      "identifiers (emitted s s') = []" "writes (emitted s s') = []"
  | w1 w2 w3 pu qu img1 img2 response where "genai_Client env (world s) = (Inr (), w1)"
      "https_url_to_gcs_uri env p = Inr pu" "https_url_to_gcs_uri env q = Inr qu"
      "Image_from_file env pu w1 = (Inr img1, w2)"
      "Image_from_file env qu w2 = (Inr img2, w3)"
      "generated_images response = None \<or> generated_images response = Some []"
      "r = Inl (ValueError ''VTO API returned no generated images.'')"
      "replay env (emitted s s') (world s) = Some (world s')"
      "clients (emitted s s') = [Inr ()]"
      "conversions (emitted s s') = [(p, Inr pu), (q, Inr qu)]"
      "loads (emitted s s') = [(pu, Inr img1), (qu, Inr img2)]"
      "requests (emitted s s') =
         [(\<lparr>model = VTO_MODEL_ID (cfg env),
            source = \<lparr>person_image = img1, product_images = [\<lparr>product_image = img2\<rparr>]\<rparr>,
            config = \<lparr>config_base_steps = bs, config_number_of_images = sc\<rparr>\<rparr>,
           Inr response)]"
      "identifiers (emitted s s') = []" "writes (emitted s s') = []"
  | w1 w2 w3 pu qu img1 img2 response imgs where "genai_Client env (world s) = (Inr (), w1)"
      "https_url_to_gcs_uri env p = Inr pu" "https_url_to_gcs_uri env q = Inr qu"
      "Image_from_file env pu w1 = (Inr img1, w2)"
      "Image_from_file env qu w2 = (Inr img2, w3)"
      "generated_images response = Some imgs" "imgs \<noteq> []"
      "replay env (emitted s s') (world s) = Some (world s')"
      "clients (emitted s s') = [Inr ()]"
      "conversions (emitted s s') = [(p, Inr pu), (q, Inr qu)]"
      "loads (emitted s s') = [(pu, Inr img1), (qu, Inr img2)]"
      "requests (emitted s s') =
         [(\<lparr>model = VTO_MODEL_ID (cfg env),
            source = \<lparr>person_image = img1, product_images = [\<lparr>product_image = img2\<rparr>]\<rparr>,
            config = \<lparr>config_base_steps = bs, config_number_of_images = sc\<rparr>\<rparr>,
           Inr response)]"
      "length (writes (emitted s s')) \<le> length imgs"
      "\<forall>j < length (writes (emitted s s')).
         vto_write j (identifiers (emitted s s') ! j) (imgs ! j) (fst (writes (emitted s s') ! j))"
      "\<And>uris. r = Inr uris \<Longrightarrow>
         map snd (writes (emitted s s')) = map Inr uris \<and> length uris = length imgs
         \<and> length (identifiers (emitted s s')) = length (writes (emitted s s'))"
      "\<And>e. r = Inl e \<Longrightarrow>
         (\<exists>oks. map snd (writes (emitted s s')) = map Inr oks @ [Inl e]
                \<and> length oks < length imgs
                \<and> length (identifiers (emitted s s')) = length (writes (emitted s s')))
         \<or> (e = AttributeError ''GeneratedImage'' ''data''
             \<and> (\<exists>oks. map snd (writes (emitted s s')) = map Inr oks)
             \<and> length (writes (emitted s s')) < length imgs
             \<and> data (imgs ! length (writes (emitted s s'))) = None
             \<and> length (identifiers (emitted s s')) = Suc (length (writes (emitted s s'))))"
      "\<exists>pre evs. emitted s s' = pre @ evs \<and> identifiers pre = [] \<and> writes pre = [] \<and>
         evs = concat (map (\<lambda>(u, c, out). [Uuid4 u, Store c out])
                  (zip (identifiers (emitted s s')) (writes (emitted s s'))))
               @ map Uuid4 (drop (length (writes (emitted s s'))) (identifiers (emitted s s')))"
proof -
  note paths = that
  let ?s5 = "py_print ''-------------------------''
      (py_print (''Model: '' @ VTO_MODEL_ID (cfg env))
        (py_print (''Product Image: '' @ format_ref q)
          (py_print (''Person Image: '' @ format_ref p)
            (py_print ''--- VTO GenAI Request ---'' s))))"
  let ?P = "prologue env p q"
  have t5: "trace ?s5 = trace s @ ?P" and w5: "world ?s5 = world s"
    by (simp_all add: prologue_def)
  obtain r0 s6 where c0: "call_genai_Client env ?s5 = (r0, s6)"
    by (cases "call_genai_Client env ?s5")
  note st0 = call_genai_Client_step[OF c0]
  have cl: "genai_Client env (world s) = (r0, world s6)" using st0 w5 by simp
  have t6: "trace s6 = trace s @ ?P @ [ClientInit r0]" using st0 t5 by simp
  have r6: "replay env (?P @ [ClientInit r0]) (world s) = Some (world s6)"
    by (rule replay_then[OF replay_prologue replay_ClientInit[OF cl]])
  show thesis
  proof (cases r0)
    case (Inl e)
    with run c0 have res: "r = Inl e" "s' = s6"
      by (simp_all add: generate_vto_image_def Let_def)
    note em = emitted_eq[OF t6]
    from res Inl cl r6 em show thesis by (intro paths(1)[of e]) simp_all
  next
    case client: (Inr u0)
    then have client': "r0 = Inr ()" by simp
    obtain r1 s7 where c1: "call_https_url_to_gcs_uri env p s6 = (r1, s7)"
      by (cases "call_https_url_to_gcs_uri env p s6")
    note st1 = call_https_url_to_gcs_uri_step[OF c1]
    have r1: "r1 = https_url_to_gcs_uri env p" and w7: "world s7 = world s6"
      using st1 by simp_all
    have t7: "trace s7 = trace s @ (?P @ [ClientInit r0]) @ [Convert p r1]"
      using st1 t6 by simp
    have r7: "replay env ((?P @ [ClientInit r0]) @ [Convert p r1]) (world s) = Some (world s7)"
      using replay_then[OF r6 replay_Convert[OF r1]] w7 by simp
    show thesis
    proof (cases r1)
      case (Inl e)
      with run c0 c1 client have res: "r = Inl e" "s' = s7"
        by (simp_all add: generate_vto_image_def Let_def)
      note em = emitted_eq[OF t7]
      from res Inl client' cl r1 r7 w7 em show thesis
        by (intro paths(2)[of e]) (simp_all del: replay.simps)
    next
      case pu: (Inr pu)
      obtain r2 s8 where c2: "call_https_url_to_gcs_uri env q s7 = (r2, s8)"
        by (cases "call_https_url_to_gcs_uri env q s7")
      note st2 = call_https_url_to_gcs_uri_step[OF c2]
      have r2: "r2 = https_url_to_gcs_uri env q" and w8: "world s8 = world s6"
        using st2 w7 by simp_all
      let ?E8 = "?P @ [ClientInit r0, Convert p r1, Convert q r2]"
      have t8: "trace s8 = trace s @ ?E8"
        using st2 t7 by simp
      have r8: "replay env ?E8 (world s) = Some (world s8)"
        using replay_then[OF r7 replay_Convert[OF r2]] w8 w7 by simp
      show thesis
      proof (cases r2)
        case (Inl e)
        with run c0 c1 c2 client pu have res: "r = Inl e" "s' = s8"
          by (simp_all add: generate_vto_image_def Let_def)
        note em = emitted_eq[OF t8]
        from res Inl client' pu cl r1 r2 r8 w8 em show thesis
          by (intro paths(3)[of pu e]) (simp_all del: replay.simps)
      next
        case qu: (Inr qu)
        obtain r3 s9 where c3: "call_Image_from_file env pu s8 = (r3, s9)"
          by (cases "call_Image_from_file env pu s8")
        note st3 = call_Image_from_file_step[OF c3]
        have l1: "Image_from_file env pu (world s6) = (r3, world s9)" using st3 w8 by simp
        let ?E9 = "?E8 @ [FromFile pu r3]"
        have t9: "trace s9 = trace s @ ?E9" using st3 t8 by simp
        have r9: "replay env ?E9 (world s) = Some (world s9)"
          using replay_then[OF r8 replay_FromFile] st3 by blast
        show thesis
        proof (cases r3)
          case (Inl e)
          with run c0 c1 c2 c3 client pu qu have res: "r = Inl e" "s' = s9"
            by (simp_all add: generate_vto_image_def Let_def)
          note em = emitted_eq[OF t9]
          from res Inl client' pu qu cl r1 r2 l1 r9 em show thesis
            by (intro paths(4)[of "world s6" pu qu e]) (simp_all del: replay.simps)
        next
          case img1: (Inr img1)
          obtain r4 s10 where c4: "call_Image_from_file env qu s9 = (r4, s10)"
            by (cases "call_Image_from_file env qu s9")
          note st4 = call_Image_from_file_step[OF c4]
          have l2: "Image_from_file env qu (world s9) = (r4, world s10)" using st4 by simp
          let ?E10 = "?E9 @ [FromFile qu r4]"
          have t10: "trace s10 = trace s @ ?E10" using st4 t9 by simp
          have r10: "replay env ?E10 (world s) = Some (world s10)"
            using replay_then[OF r9 replay_FromFile] st4 by blast
          show thesis
          proof (cases r4)
            case (Inl e)
            with run c0 c1 c2 c3 c4 client pu qu img1 have res: "r = Inl e" "s' = s10"
              by (simp_all add: generate_vto_image_def Let_def)
            note em = emitted_eq[OF t10]
            from res Inl client' pu qu img1 cl r1 r2 l1 l2 r10 em show thesis
              by (intro paths(5)[of "world s6" pu qu img1 "world s9" e])
                 (simp_all del: replay.simps)
          next
            case img2: (Inr img2)
            let ?req = "\<lparr>model = VTO_MODEL_ID (cfg env),
               source = \<lparr>person_image = img1, product_images = [\<lparr>product_image = img2\<rparr>]\<rparr>,
               config = \<lparr>config_base_steps = bs, config_number_of_images = sc\<rparr>\<rparr>"
            obtain r5 s11 where c5: "call_recontext_image env ?req s10 = (r5, s11)"
              by (cases "call_recontext_image env ?req s10")
            note st5 = call_recontext_image_step[OF c5]
            let ?E11 = "?E10 @ [Recontext ?req r5]"
            have t11: "trace s11 = trace s @ ?E11" using st5 t10 by simp
            have r11: "replay env ?E11 (world s) = Some (world s11)"
              using replay_then[OF r10 replay_Recontext] st5 by blast
            show thesis
            proof (cases r5)
              case (Inl e)
              with run c0 c1 c2 c3 c4 c5 client pu qu img1 img2
              have res: "r = Inl e" "s' = s11"
                by (simp_all add: generate_vto_image_def Let_def)
              note em = emitted_eq[OF t11]
              from res Inl client' pu qu img1 img2 cl r1 r2 l1 l2 r11 em show thesis
                by (intro paths(6)[of "world s6" pu qu img1 "world s9" img2 "world s10" e])
                   (simp_all del: replay.simps)
            next
              case resp: (Inr response)
              let ?s14 = "py_print ''------------------------''
                 (py_print (str_response env response)
                   (py_print ''--- VTO GenAI Response ---'' s11))"
              let ?E14 = "?E11 @ epilogue env response"
              have t14: "trace ?s14 = trace s @ ?E14"
                using t11 by (simp add: epilogue_def)
              have w14: "world ?s14 = world s11" by simp
              have r14: "replay env ?E14 (world s) = Some (world ?s14)"
                using replay_then[OF r11 replay_epilogue] w14 by simp
              have empty: thesis
                if "generated_images response = None \<or> generated_images response = Some []"
                  and res: "r = Inl (ValueError ''VTO API returned no generated images.'')"
                    "s' = ?s14"
              proof -
                note em = emitted_eq[OF t14]
                from that resp client' pu qu img1 img2 cl r1 r2 l1 l2 r14 em show thesis
                  by (intro paths(7)[of "world s6" pu qu img1 "world s9" img2 "world s10"
                        response])
                     (simp_all del: replay.simps)
              qed
              show thesis
              proof (cases "generated_images response")
                case None
                with run c0 c1 c2 c3 c4 c5 client pu qu img1 img2 resp
                have "r = Inl (ValueError ''VTO API returned no generated images.'')"
                  "s' = ?s14"
                  by (simp_all add: generate_vto_image_def Let_def)
                with None show thesis by (intro empty) simp_all
              next
                case (Some imgs)
                show thesis
                proof (cases imgs)
                  case Nil
                  with Some run c0 c1 c2 c3 c4 c5 client pu qu img1 img2 resp
                  have "r = Inl (ValueError ''VTO API returned no generated images.'')"
                    "s' = ?s14"
                    by (simp_all add: generate_vto_image_def Let_def)
                  with Some Nil show thesis by (intro empty) simp_all
                next
                  case (Cons img rest)
                  with Some run c0 c1 c2 c3 c4 c5 client pu qu img1 img2 resp
                  have loop: "store_results env 0 imgs [] ?s14 = (r, s')"
                    by (simp add: generate_vto_image_def Let_def)
                  from store_results_run[OF loop] obtain evs where evs:
                    "trace s' = trace ?s14 @ evs"
                    "replay env evs (world ?s14) = Some (world s')"
                    "requests evs = [] \<and> conversions evs = [] \<and> loads evs = []
                       \<and> clients evs = []"
                    "evs = concat (map (\<lambda>(u, c, out). [Uuid4 u, Store c out])
                              (zip (identifiers evs) (writes evs)))
                           @ map Uuid4 (drop (length (writes evs)) (identifiers evs))"
                    "length (writes evs) \<le> length imgs"
                    "\<forall>j < length (writes evs).
                       vto_write (0 + j) (identifiers evs ! j) (imgs ! j) (fst (writes evs ! j))"
                    "(case r of
                       Inr uris \<Rightarrow>
                         \<exists>new. uris = [] @ new \<and> map snd (writes evs) = map Inr new
                               \<and> length new = length imgs
                               \<and> length (identifiers evs) = length (writes evs)
                     | Inl e \<Rightarrow>
                         (\<exists>oks. map snd (writes evs) = map Inr oks @ [Inl e]
                               \<and> length oks < length imgs
                               \<and> length (identifiers evs) = length (writes evs))
                       \<or> (e = AttributeError ''GeneratedImage'' ''data''
                           \<and> (\<exists>oks. map snd (writes evs) = map Inr oks)
                           \<and> length (writes evs) < length imgs
                           \<and> data (imgs ! length (writes evs)) = None
                           \<and> length (identifiers evs) = Suc (length (writes evs))))"
                    by blast
                  have em: "emitted s s' = ?E14 @ evs"
                    using evs(1) t14 by (intro emitted_eq) simp
                  have wE: "writes (emitted s s') = writes evs"
                    and iE: "identifiers (emitted s s') = identifiers evs"
                    using em by simp_all
                  have rp: "replay env (emitted s s') (world s) = Some (world s')"
                    unfolding em using replay_then[OF r14 evs(2)] .
                  have cE: "clients (emitted s s') = [Inr ()]"
                    and vE: "conversions (emitted s s') = [(p, Inr pu), (q, Inr qu)]"
                    and lE: "loads (emitted s s') = [(pu, Inr img1), (qu, Inr img2)]"
                    and qE: "requests (emitted s s') = [(?req, Inr response)]"
                    using em evs(3) client' pu qu img1 img2 resp by simp_all
                  have okE: "map snd (writes (emitted s s')) = map Inr uris
                       \<and> length uris = length imgs
                       \<and> length (identifiers (emitted s s')) = length (writes (emitted s s'))"
                    if "r = Inr uris" for uris
                    using evs(7) that wE iE by auto
                  have errE: "(\<exists>oks. map snd (writes (emitted s s')) = map Inr oks @ [Inl e]
                        \<and> length oks < length imgs
                        \<and> length (identifiers (emitted s s')) = length (writes (emitted s s')))
                     \<or> (e = AttributeError ''GeneratedImage'' ''data''
                       \<and> (\<exists>oks. map snd (writes (emitted s s')) = map Inr oks)
                       \<and> length (writes (emitted s s')) < length imgs
                       \<and> data (imgs ! length (writes (emitted s s'))) = None
                       \<and> length (identifiers (emitted s s'))
                           = Suc (length (writes (emitted s s'))))"
                    if "r = Inl e" for e
                    using evs(7) that unfolding wE iE by simp
                  have shape: "\<exists>pre evs. emitted s s' = pre @ evs \<and> identifiers pre = []
                       \<and> writes pre = [] \<and>
                     evs = concat (map (\<lambda>(u, c, out). [Uuid4 u, Store c out])
                              (zip (identifiers (emitted s s')) (writes (emitted s s'))))
                           @ map Uuid4 (drop (length (writes (emitted s s')))
                                          (identifiers (emitted s s')))"
                    unfolding wE iE using em evs(4)
                    by (intro exI[of _ ?E14] exI[of _ evs]) simp
                  have lenE: "length (writes (emitted s s')) \<le> length imgs"
                    using evs(5) wE by simp
                  have nthE: "\<forall>j < length (writes (emitted s s')).
                      vto_write j (identifiers (emitted s s') ! j) (imgs ! j)
                        (fst (writes (emitted s s') ! j))"
                    using evs(6) unfolding wE iE by simp
                  have cl1: "genai_Client env (world s) = (Inr (), world s6)"
                    using cl client' by simp
                  have l1': "Image_from_file env pu (world s6) = (Inr img1, world s9)"
                    using l1 img1 by simp
                  have l2': "Image_from_file env qu (world s9) = (Inr img2, world s10)"
                    using l2 img2 by simp
                  have nonempty: "imgs \<noteq> []" using Cons by simp
                  have c1': "https_url_to_gcs_uri env p = Inr pu"
                    and c2': "https_url_to_gcs_uri env q = Inr qu"
                    using r1 r2 pu qu by simp_all
                  show thesis
                    by (rule paths(8)[of "world s6" pu qu img1 "world s9" img2 "world s10"
                          response imgs])
                       (use cl1 c1' c2' l1' l2' Some nonempty rp cE vE lE qE lenE nthE okE
                          errE shape in blast)+
                qed
              qed
            qed
          qed
        qed
      qed
    qed
  qed
qed

subsection \<open>File names\<close>

lemma digit_char_inj: "a < 10 \<Longrightarrow> b < 10 \<Longrightarrow> digit_char a = digit_char b \<Longrightarrow> a = b"
proof -
  assume a: "a < 10" and b: "b < 10" and eq: "digit_char a = digit_char b"
  have d: "distinct ''0123456789''" by simp
  have "a < length ''0123456789''" "b < length ''0123456789''" using a b by simp_all
  with d eq show "a = b" unfolding digit_char_def by (simp only: nth_eq_iff_index_eq)
qed

lemma digit_char_not_hyphen: "d < 10 \<Longrightarrow> digit_char d \<noteq> CHR ''-''"
proof
  assume d: "d < 10" and eq: "digit_char d = CHR ''-''"
  have "d < length ''0123456789''" using d by simp
  then have "''0123456789'' ! d \<in> set ''0123456789''" by (rule nth_mem)
  with eq show False by (simp add: digit_char_def)
qed

lemma str_nat_not_Nil: "str_nat n \<noteq> []"
  by (subst str_nat.simps) simp

lemma hyphen_notin_str_nat: "CHR ''-'' \<notin> set (str_nat n)"
proof (induction n rule: str_nat.induct)
  case (1 n)
  show ?case
  proof (cases "n < 10")
    case True
    then show ?thesis using digit_char_not_hyphen[of n] by (subst str_nat.simps) auto
  next
    case False
    have "n mod 10 < 10" by simp
    then have "digit_char (n mod 10) \<noteq> CHR ''-''" by (rule digit_char_not_hyphen)
    with False "1" show ?thesis by (subst str_nat.simps) auto
  qed
qed

lemma str_nat_inj: "str_nat n = str_nat m \<Longrightarrow> n = m"
proof (induction n arbitrary: m rule: str_nat.induct)
  case (1 n)
  show ?case
  proof (cases "n < 10")
    case n: True
    show ?thesis
    proof (cases "m < 10")
      case True
      with n "1.prems" show ?thesis
        by (simp add: str_nat.simps[of n] str_nat.simps[of m] digit_char_inj)
    next
      case False
      with n "1.prems" have "[digit_char n] = str_nat (m div 10) @ [digit_char (m mod 10)]"
        by (simp add: str_nat.simps[of n] str_nat.simps[of m])
      then show ?thesis using str_nat_not_Nil[of "m div 10"] by simp
    qed
  next
    case n: False
    show ?thesis
    proof (cases "m < 10")
      case True
      with n "1.prems" have "str_nat (n div 10) @ [digit_char (n mod 10)] = [digit_char m]"
        by (simp add: str_nat.simps[of n] str_nat.simps[of m])
      then show ?thesis using str_nat_not_Nil[of "n div 10"] by simp
    next
      case False
      with n "1.prems" have eq: "str_nat (n div 10) = str_nat (m div 10)"
        "digit_char (n mod 10) = digit_char (m mod 10)"
        by (simp_all add: str_nat.simps[of n] str_nat.simps[of m])
      from "1.IH"[OF n eq(1)] have "n div 10 = m div 10" .
      moreover have "n mod 10 = m mod 10"
        using eq(2) by (intro digit_char_inj) simp_all
      ultimately show ?thesis by (metis div_mult_mod_eq)
    qed
  qed
qed

lemma suffix_after_last:
  assumes "xs @ c # ys = xs' @ c # ys'" "c \<notin> set ys" "c \<notin> set ys'"
  shows "ys = ys'"
proof -
  have "takeWhile (\<lambda>x. x \<noteq> c) (rev (xs @ c # ys)) = rev ys"
    using assms(2) by (auto simp: takeWhile_tail)
  moreover have "takeWhile (\<lambda>x. x \<noteq> c) (rev (xs' @ c # ys')) = rev ys'"
    using assms(3) by (auto simp: takeWhile_tail)
  ultimately have "rev ys = rev ys'" using assms(1) by simp
  then show ?thesis by simp
qed

lemma vto_file_name_index:
  assumes "''vto_result_'' @ str_uuid u @ ''-'' @ str_nat i @ ''_.png''
         = ''vto_result_'' @ str_uuid v @ ''-'' @ str_nat j @ ''_.png''"
  shows "i = j"
proof -
  from assms have "str_uuid u @ CHR ''-'' # str_nat i = str_uuid v @ CHR ''-'' # str_nat j"
    by simp
  then have "str_nat i = str_nat j"
    by (rule suffix_after_last) (rule hyphen_notin_str_nat)+
  then show ?thesis by (rule str_nat_inj)
qed

subsection \<open>Runs of the stand-ins\<close>

lemmas stub_defs = generate_vto_image_def stub_env_def counting_env_def no_client_env_def
  stub_convert_def start_def three_images_def library_image_def Image_from_file_def
  call_genai_Client_def call_https_url_to_gcs_uri_def call_Image_from_file_def
  call_recontext_image_def call_uuid4_def call_store_to_gcs_def py_print_def emit_def Let_def
  ValueError_def AttributeError_def format_ref_def emitted_def

lemma str_nat_digits [simp]: "str_nat 0 = ''0''" "str_nat (Suc 0) = ''1''"
  "str_nat (Suc (Suc 0)) = ''2''"
  by (simp_all add: str_nat.simps digit_char_def numeral_2_eq_2[symmetric])

lemma upt_32:
  "[0..<32] = [0, 1, 2, 3, 4, 5, 6, 7, 8, 9, 10, 11, 12, 13, 14, 15, 16, 17, 18, 19, 20,
               21, 22, 23, 24, 25, 26, 27, 28, 29, 30, 31]"
  by (simp add: upt_rec)


lemma str_uuid_example:
  "str_uuid 0x123e4567e89b42d3a456426614174000 = ''123e4567-e89b-42d3-a456-426614174000''"
  by (simp add: str_uuid_def hex32_def hex_char_def upt_32)

lemma stub_run_unset_fst:
  "fst (generate_vto_image (stub_env imgs bad) None q sc bs start)
     = Inl (PyError ''ConversionError'' ''None'')"
  by (simp add: stub_defs)

lemma stub_run_stored_fst:
  "fst (generate_vto_image (stub_env (Some three_images) []) (Some ''https://b/p.png'')
      (Some ''https://b/q.png'') sc bs start) =
     Inr [''gs://bucket/vto_results/vto_result_'' @ str_uuid 0 @ ''-0_.png'',
           ''gs://bucket/vto_results/vto_result_'' @ str_uuid 0 @ ''-1_.png'',
           ''gs://bucket/vto_results/vto_result_'' @ str_uuid 0 @ ''-2_.png'']"
  by (simp add: stub_defs)

lemma stub_run_stored_requests:
  "requests (emitted start (snd (generate_vto_image (stub_env (Some three_images) [])
      (Some ''https://b/p.png'') (Some ''https://b/q.png'') sc bs start))) =
     [(\<lparr>model = ''vto-model'',
        source = \<lparr>person_image = \<lparr>image_gcs_uri = Some ''gs://b/p.png'', image_bytes = None,
                                   image_mime_type = None\<rparr>,
                  product_images =
                    [\<lparr>product_image = \<lparr>image_gcs_uri = Some ''gs://b/q.png'',
                                        image_bytes = None, image_mime_type = None\<rparr>\<rparr>]\<rparr>,
        config = \<lparr>config_base_steps = bs, config_number_of_images = sc\<rparr>\<rparr>,
       Inr \<lparr>generated_images = Some three_images\<rparr>)]"
  by (simp add: stub_defs)

lemma stub_run_stored_writes:
  "map snd (writes (emitted start (snd (generate_vto_image (stub_env (Some three_images) [])
      (Some ''https://b/p.png'') (Some ''https://b/q.png'') sc bs start)))) =
     [Inr (''gs://bucket/vto_results/vto_result_'' @ str_uuid 0 @ ''-0_.png''),
      Inr (''gs://bucket/vto_results/vto_result_'' @ str_uuid 0 @ ''-1_.png''),
      Inr (''gs://bucket/vto_results/vto_result_'' @ str_uuid 0 @ ''-2_.png'')]"
  by (simp add: stub_defs)

lemma stub_run_stored_identifiers:
  "identifiers (emitted start (snd (generate_vto_image (stub_env (Some three_images) [])
      (Some ''https://b/p.png'') (Some ''https://b/q.png'') sc bs start))) = [0, 0, 0]"
  by (simp add: stub_defs)

lemma stub_run_empty_fst:
  "fst (generate_vto_image (stub_env (Some []) []) (Some ''https://b/p.png'')
      (Some ''https://b/q.png'') sc bs start)
   = Inl (ValueError ''VTO API returned no generated images.'')"
  by (simp add: stub_defs)

lemma stub_run_empty_requests:
  "requests (emitted start (snd (generate_vto_image (stub_env (Some []) [])
      (Some ''https://b/p.png'') (Some ''https://b/q.png'') sc bs start))) =
     [(\<lparr>model = ''vto-model'',
        source = \<lparr>person_image = \<lparr>image_gcs_uri = Some ''gs://b/p.png'', image_bytes = None,
                                   image_mime_type = None\<rparr>,
                  product_images =
                    [\<lparr>product_image = \<lparr>image_gcs_uri = Some ''gs://b/q.png'',
                                        image_bytes = None, image_mime_type = None\<rparr>\<rparr>]\<rparr>,
        config = \<lparr>config_base_steps = bs, config_number_of_images = sc\<rparr>\<rparr>,
       Inr \<lparr>generated_images = Some []\<rparr>)]"
  by (simp add: stub_defs)

lemma stub_run_refused_fst:
  "fst (generate_vto_image (stub_env (Some three_images) [[2]]) (Some ''https://b/p.png'')
      (Some ''https://b/q.png'') sc bs start) =
     Inl (PyError ''StorageWriteError'' (''vto_result_'' @ str_uuid 0 @ ''-1_.png''))"
  by (simp add: stub_defs)

lemma stub_run_refused_writes:
  "map snd (writes (emitted start (snd (generate_vto_image (stub_env (Some three_images) [[2]])
      (Some ''https://b/p.png'') (Some ''https://b/q.png'') sc bs start)))) =
     [Inr (''gs://bucket/vto_results/vto_result_'' @ str_uuid 0 @ ''-0_.png''),
      Inl (PyError ''StorageWriteError'' (''vto_result_'' @ str_uuid 0 @ ''-1_.png''))]"
  by (simp add: stub_defs)

lemma stub_run_refused_requests:
  "requests (emitted start (snd (generate_vto_image (stub_env (Some three_images) [[2]])
      (Some ''https://b/p.png'') (Some ''https://b/q.png'') sc bs start))) =
     [(\<lparr>model = ''vto-model'',
        source = \<lparr>person_image = \<lparr>image_gcs_uri = Some ''gs://b/p.png'', image_bytes = None,
                                   image_mime_type = None\<rparr>,
                  product_images =
                    [\<lparr>product_image = \<lparr>image_gcs_uri = Some ''gs://b/q.png'',
                                        image_bytes = None, image_mime_type = None\<rparr>\<rparr>]\<rparr>,
        config = \<lparr>config_base_steps = bs, config_number_of_images = sc\<rparr>\<rparr>,
       Inr \<lparr>generated_images = Some three_images\<rparr>)]"
  by (simp add: stub_defs)




lemma library_run_fst:
  "fst (generate_vto_image (stub_env (Some [library_image [1]]) []) (Some ''https://b/p.png'')
      (Some ''https://b/q.png'') sc bs start)
   = Inl (AttributeError ''GeneratedImage'' ''data'')"
  by (simp add: stub_defs)

lemma library_run_requests:
  "requests (emitted start (snd (generate_vto_image (stub_env (Some [library_image [1]]) [])
      (Some ''https://b/p.png'') (Some ''https://b/q.png'') sc bs start))) =
     [(\<lparr>model = ''vto-model'',
        source = \<lparr>person_image = \<lparr>image_gcs_uri = Some ''gs://b/p.png'', image_bytes = None,
                                   image_mime_type = None\<rparr>,
                  product_images =
                    [\<lparr>product_image = \<lparr>image_gcs_uri = Some ''gs://b/q.png'',
                                        image_bytes = None, image_mime_type = None\<rparr>\<rparr>]\<rparr>,
        config = \<lparr>config_base_steps = bs, config_number_of_images = sc\<rparr>\<rparr>,
       Inr \<lparr>generated_images = Some [library_image [1]]\<rparr>)]"
  by (simp add: stub_defs)

lemma library_run_effects:
  "identifiers (emitted start (snd (generate_vto_image (stub_env (Some [library_image [1]]) [])
      (Some ''https://b/p.png'') (Some ''https://b/q.png'') sc bs start))) = [0]"
  "writes (emitted start (snd (generate_vto_image (stub_env (Some [library_image [1]]) [])
      (Some ''https://b/p.png'') (Some ''https://b/q.png'') sc bs start))) = []"
  by (simp_all add: stub_defs)

lemma no_client_run_fst:
  "fst (generate_vto_image (no_client_env imgs bad) p q sc bs start)
     = Inl (ValueError ''Missing key inputs argument!'')"
  by (simp add: stub_defs)

lemma no_client_run_effects:
  "conversions (emitted start (snd (generate_vto_image (no_client_env imgs bad) p q sc bs start)))
     = []"
  "requests (emitted start (snd (generate_vto_image (no_client_env imgs bad) p q sc bs start)))
     = []"
  by (simp_all add: stub_defs)


lemma stub_run_rejected_fst:
  "fst (generate_vto_image (stub_env imgs bad) (Some ''https://b/p.png'')
      (Some ''ftp://b/q.png'') sc bs start)
   = Inl (PyError ''ConversionError'' ''ftp://b/q.png'')"
  by (simp add: stub_defs)

subsection \<open>Images without the attribute data\<close>

text \<open>
  Whatever the collaborators do: when the first image of the response has no attribute
  \<open>data\<close>, as the images the library builds, the call draws one identifier, fails with
  \<open>AttributeError\<close> and writes nothing.
\<close>

lemma generate_vto_image_attribute_error:
  assumes run: "generate_vto_image env person_gcs_url product_gcs_url sample_count base_steps s
                  = (r, s')"
    and served: "(req, Inr response) \<in> set (requests (emitted s s'))"
    and images: "generated_images response = Some (img # rest)"
    and no_data: "data img = None"
  shows "r = Inl (AttributeError ''GeneratedImage'' ''data'')
       \<and> writes (emitted s s') = []
       \<and> length (identifiers (emitted s s')) = 1"
  using run
proof (cases rule: generate_vto_image_paths)
  case (client_fails e)
  with served show ?thesis by simp
next
  case (person_fails e)
  with served show ?thesis by simp
next
  case (product_fails pu e)
  with served show ?thesis by simp
next
  case (person_load_fails w1 pu qu e)
  with served show ?thesis by simp
next
  case (product_load_fails w1 w2 pu qu img1 e)
  with served show ?thesis by simp
next
  case (service_fails w1 w2 w3 pu qu img1 img2 e)
  with served show ?thesis by simp
next
  case (no_images w1 w2 w3 pu qu img1 img2 response')
  with served images show ?thesis by auto
next
  case st: (stored w1 w2 w3 pu qu img1 img2 response' imgs)
  let ?ws = "writes (emitted s s')"
  from served st(12) have "response' = response" by simp
  with images st(6) have imgs: "imgs = img # rest" by simp
  have none: "?ws = []"
  proof (rule ccontr)
    assume "?ws \<noteq> []"
    then have "0 < length ?ws" by simp
    with st(14) have "vto_write 0 (identifiers (emitted s s') ! 0) (imgs ! 0) (fst (?ws ! 0))"
      by blast
    with imgs no_data show False by (simp add: vto_write_def)
  qed
  have not_ok: "r \<noteq> Inr uris" for uris
  proof
    assume "r = Inr uris"
    from st(15)[OF this] none imgs show False by auto
  qed
  then obtain e where e: "r = Inl e" by (cases r) auto
  from st(16)[OF e] none have "e = AttributeError ''GeneratedImage'' ''data''"
    "length (identifiers (emitted s s')) = Suc 0"
    by auto
  with e none show ?thesis by simp
qed

section \<open>The claims\<close>

text \<open>
  C1. The claim: when the service returns images and every write succeeds, the call
  returns one storage URI per image, in order. The code does not do that on a response of
  the library: here the service returns one image, built as the library builds it, and
  the writer refuses nothing; the call draws one identifier, fails with \<open>AttributeError\<close>
  when it reads \<open>generated_image.data\<close>, and makes no write.
\<close>

theorem generate_vto_image_returns_all_fails:
  "map snd (requests (emitted start (snd (generate_vto_image
       (stub_env (Some [library_image [1]]) []) (Some ''https://b/p.png'')
       (Some ''https://b/q.png'') 1 32 start))))
     = [Inr \<lparr>generated_images = Some [library_image [1]]\<rparr>]
   \<and> fst (generate_vto_image (stub_env (Some [library_image [1]]) [])
            (Some ''https://b/p.png'') (Some ''https://b/q.png'') 1 32 start)
     = Inl (AttributeError ''GeneratedImage'' ''data'')
   \<and> identifiers (emitted start (snd (generate_vto_image
       (stub_env (Some [library_image [1]]) []) (Some ''https://b/p.png'')
       (Some ''https://b/q.png'') 1 32 start))) = [0]
   \<and> writes (emitted start (snd (generate_vto_image
       (stub_env (Some [library_image [1]]) []) (Some ''https://b/p.png'')
       (Some ''https://b/q.png'') 1 32 start))) = []"
  by (simp only: library_run_fst library_run_requests library_run_effects) simp

text \<open>
  C2. When \<open>generate_vto_image\<close> returns the list \<open>gcs_uris\<close>, \<open>call_virtual_try_on\<close> on
  the same inputs returns an object whose \<open>predictions\<close> has the same length, and whose
  i-th entry is a dict with the single key \<open>gcsUri\<close>, bound to the i-th URI.
\<close>

theorem call_virtual_try_on_predictions:
  assumes "generate_vto_image env person_image_uri product_image_uri
             (case sample_count of None \<Rightarrow> 1 | Some n \<Rightarrow> n) 32 s = (Inr gcs_uris, s')"
  shows "\<exists>result.
           call_virtual_try_on env person_image_uri product_image_uri sample_count s
             = (Inr result, s')
         \<and> length (predictions result) = length gcs_uris
         \<and> (\<forall>i < length gcs_uris.
               (predictions result ! i) ''gcsUri'' = Some (gcs_uris ! i)
             \<and> dom (predictions result ! i) = {''gcsUri''})"
  using assms by (simp add: call_virtual_try_on_def)

theorem call_virtual_try_on_predictions_witness:
  "\<exists>result.
     fst (call_virtual_try_on (stub_env (Some three_images) []) (Some ''https://b/p.png'')
            (Some ''https://b/q.png'') (Some 3) start) = Inr result
   \<and> length (predictions result) = 3
   \<and> (predictions result ! 2) ''gcsUri''
       = Some (''gs://bucket/vto_results/vto_result_'' @ str_uuid 0 @ ''-2_.png'')"
proof -
  let ?uris = "[''gs://bucket/vto_results/vto_result_'' @ str_uuid 0 @ ''-0_.png'',
           ''gs://bucket/vto_results/vto_result_'' @ str_uuid 0 @ ''-1_.png'',
           ''gs://bucket/vto_results/vto_result_'' @ str_uuid 0 @ ''-2_.png'']"
  obtain s' where run:
    "generate_vto_image (stub_env (Some three_images) []) (Some ''https://b/p.png'')
       (Some ''https://b/q.png'') (case Some 3 of None \<Rightarrow> 1 | Some n \<Rightarrow> n) 32 start
     = (Inr ?uris, s')"
    using stub_run_stored_fst[of "case Some 3 of None \<Rightarrow> 1 | Some n \<Rightarrow> n" 32]
    by (metis prod.collapse)
  from call_virtual_try_on_predictions[OF run] obtain result where
    "call_virtual_try_on (stub_env (Some three_images) []) (Some ''https://b/p.png'')
            (Some ''https://b/q.png'') (Some 3) start = (Inr result, s')"
    "length (predictions result) = length ?uris"
    "\<forall>i < length ?uris. (predictions result ! i) ''gcsUri'' = Some (?uris ! i)
             \<and> dom (predictions result ! i) = {''gcsUri''}"
    by blast
  then show ?thesis by (intro exI[of _ result]) simp
qed

text \<open>
  C3. When the service answers a request with no images (an empty list, or no list at
  all), the call fails with the \<open>ValueError\<close> of the source (the empty-result error of the
  specification), having drawn no identifier and written nothing. And a call that
  succeeds returns at least one URI, each the outcome of a write that succeeded.
\<close>

theorem generate_vto_image_no_images:
  assumes run: "generate_vto_image env person_gcs_url product_gcs_url sample_count base_steps s
                  = (r, s')"
  shows "(\<forall>req response.
            (req, Inr response) \<in> set (requests (emitted s s'))
            \<and> (generated_images response = None \<or> generated_images response = Some [])
            \<longrightarrow> r = Inl (ValueError ''VTO API returned no generated images.'')
                \<and> identifiers (emitted s s') = []
                \<and> writes (emitted s s') = [])
       \<and> (\<forall>gcs_uris. r = Inr gcs_uris
            \<longrightarrow> gcs_uris \<noteq> [] \<and> map snd (writes (emitted s s')) = map Inr gcs_uris)"
  using run
proof (cases rule: generate_vto_image_paths)
  case (client_fails e)
  then show ?thesis by simp
next
  case (person_fails e)
  then show ?thesis by simp
next
  case (product_fails pu e)
  then show ?thesis by simp
next
  case (person_load_fails w1 pu qu e)
  then show ?thesis by simp
next
  case (product_load_fails w1 w2 pu qu img1 e)
  then show ?thesis by simp
next
  case (service_fails w1 w2 w3 pu qu img1 img2 e)
  then show ?thesis by simp
next
  case (no_images w1 w2 w3 pu qu img1 img2 response)
  then show ?thesis by simp
next
  case st: (stored w1 w2 w3 pu qu img1 img2 response imgs)
  have "gcs_uris \<noteq> [] \<and> map snd (writes (emitted s s')) = map Inr gcs_uris"
    if "r = Inr gcs_uris" for gcs_uris
    using st(15)[OF that] st(7) by auto
  with st(6,7,12) show ?thesis by auto
qed

theorem generate_vto_image_no_images_witness:
  "fst (generate_vto_image (stub_env (Some []) []) (Some ''https://b/p.png'')
          (Some ''https://b/q.png'') 3 32 start)
     = Inl (ValueError ''VTO API returned no generated images.'')
   \<and> writes (emitted start (snd (generate_vto_image (stub_env (Some []) [])
          (Some ''https://b/p.png'') (Some ''https://b/q.png'') 3 32 start))) = []
   \<and> length (writes (emitted start (snd (generate_vto_image (stub_env (Some three_images) [])
          (Some ''https://b/p.png'') (Some ''https://b/q.png'') 3 32 start)))) = 3"
proof -
  let ?empty = "generate_vto_image (stub_env (Some []) []) (Some ''https://b/p.png'')
          (Some ''https://b/q.png'') 3 32 start"
  let ?full = "generate_vto_image (stub_env (Some three_images) []) (Some ''https://b/p.png'')
          (Some ''https://b/q.png'') 3 32 start"
  let ?req = "\<lparr>model = ''vto-model'',
        source = \<lparr>person_image = \<lparr>image_gcs_uri = Some ''gs://b/p.png'', image_bytes = None,
                                   image_mime_type = None\<rparr>,
                  product_images =
                    [\<lparr>product_image = \<lparr>image_gcs_uri = Some ''gs://b/q.png'',
                                        image_bytes = None, image_mime_type = None\<rparr>\<rparr>]\<rparr>,
        config = \<lparr>config_base_steps = 32, config_number_of_images = 3\<rparr>\<rparr>"
  have run1: "?empty = (fst ?empty, snd ?empty)" by simp
  have served: "(?req, Inr \<lparr>generated_images = Some []\<rparr>)
                  \<in> set (requests (emitted start (snd ?empty)))"
    by (simp only: stub_run_empty_requests) simp
  have none: "generated_images \<lparr>generated_images = Some []\<rparr> = None
            \<or> generated_images \<lparr>generated_images = Some []\<rparr> = Some []"
    by simp
  from generate_vto_image_no_images[OF run1] served none
  have 1: "fst ?empty = Inl (ValueError ''VTO API returned no generated images.'')
           \<and> writes (emitted start (snd ?empty)) = []"
    by blast
  have run2: "?full = (fst ?full, snd ?full)" by simp
  from generate_vto_image_no_images[OF run2] stub_run_stored_fst[of 3 32]
  have "map snd (writes (emitted start (snd ?full))) =
     map Inr [''gs://bucket/vto_results/vto_result_'' @ str_uuid 0 @ ''-0_.png'',
           ''gs://bucket/vto_results/vto_result_'' @ str_uuid 0 @ ''-1_.png'',
           ''gs://bucket/vto_results/vto_result_'' @ str_uuid 0 @ ''-2_.png'']"
    by blast
  then have "length (map snd (writes (emitted start (snd ?full)))) = 3"
    by simp
  then have 2: "length (writes (emitted start (snd ?full))) = 3" by simp
  from 1 2 show ?thesis by blast
qed

text \<open>
  C4. When the k-th write of a call fails (k counted from 1), the call fails with the
  error of that write, and it made exactly k writes: the k - 1 before it, which all
  succeeded, and none after it. The writes carried the first k images of the response,
  in order.
\<close>

theorem generate_vto_image_write_failure:
  assumes run: "generate_vto_image env person_gcs_url product_gcs_url sample_count base_steps s
                  = (r, s')"
    and k: "1 \<le> k" "k \<le> length (writes (emitted s s'))"
    and fails: "snd (writes (emitted s s') ! (k - 1)) = Inl e"
  shows "r = Inl e
       \<and> length (writes (emitted s s')) = k
       \<and> (\<forall>j < k - 1. \<exists>uri. snd (writes (emitted s s') ! j) = Inr uri)
       \<and> (\<exists>req response imgs.
             requests (emitted s s') = [(req, Inr response)]
           \<and> generated_images response = Some imgs
           \<and> k \<le> length imgs
           \<and> (\<forall>j < k. data (imgs ! j) = Some (contents (fst (writes (emitted s s') ! j)))))"
  using run
proof (cases rule: generate_vto_image_paths)
  case (client_fails e)
  with k show ?thesis by simp
next
  case (person_fails e)
  with k show ?thesis by simp
next
  case (product_fails pu e)
  with k show ?thesis by simp
next
  case (person_load_fails w1 pu qu e)
  with k show ?thesis by simp
next
  case (product_load_fails w1 w2 pu qu img1 e)
  with k show ?thesis by simp
next
  case (service_fails w1 w2 w3 pu qu img1 img2 e)
  with k show ?thesis by simp
next
  case (no_images w1 w2 w3 pu qu img1 img2 response)
  with k show ?thesis by simp
next
  case st: (stored w1 w2 w3 pu qu img1 img2 response imgs)
  let ?ws = "writes (emitted s s')"
  have kth: "map snd ?ws ! (k - 1) = Inl e"
    using fails k by simp
  have all_ok: False if "map snd ?ws = map Inr oks" for oks
  proof -
    have "k - 1 < length oks"
      using that k by (metis Suc_le_lessD Suc_pred length_map less_eq_Suc_le One_nat_def)
    with that kth show False by simp
  qed
  have not_ok: "r \<noteq> Inr gcs_uris" for gcs_uris
  proof
    assume "r = Inr gcs_uris"
    from st(15)[OF this] all_ok show False by blast
  qed
  then obtain e' where e': "r = Inl e'" by (cases r) auto
  from st(16)[OF e'] all_ok obtain oks where oks: "map snd ?ws = map Inr oks @ [Inl e']"
    by blast
  then have lw: "length ?ws = Suc (length oks)"
    by (metis length_map length_append_singleton)
  have pos: "k - 1 = length oks"
  proof (rule ccontr)
    assume "k - 1 \<noteq> length oks"
    with k lw have "k - 1 < length oks" by simp
    then have "map snd ?ws ! (k - 1) = Inr (oks ! (k - 1))"
      using oks by (simp add: nth_append)
    with kth show False by simp
  qed
  then have "e' = e" using kth oks by (simp add: nth_append)
  have len: "length ?ws = k" using pos lw k by simp
  have before: "\<exists>uri. snd (?ws ! j) = Inr uri" if "j < k - 1" for j
  proof -
    have "map snd ?ws ! j = Inr (oks ! j)" using that pos oks by (simp add: nth_append)
    moreover have "j < length ?ws" using that len by simp
    ultimately show ?thesis by simp
  qed
  have bytes: "data (imgs ! j) = Some (contents (fst (?ws ! j)))" if "j < k" for j
  proof -
    have "j < length ?ws" using that len by simp
    with st(14) have "vto_write j (identifiers (emitted s s') ! j) (imgs ! j) (fst (?ws ! j))"
      by blast
    then show ?thesis by (auto simp: vto_write_def)
  qed
  have "k \<le> length imgs" using len st(13) by simp
  with e' \<open>e' = e\<close> len before bytes st(6,12) show ?thesis by auto
qed

theorem generate_vto_image_write_failure_witness:
  "fst (generate_vto_image (stub_env (Some three_images) [[2]]) (Some ''https://b/p.png'')
          (Some ''https://b/q.png'') 3 32 start)
     = Inl (PyError ''StorageWriteError'' (''vto_result_'' @ str_uuid 0 @ ''-1_.png''))
   \<and> length (writes (emitted start (snd (generate_vto_image
          (stub_env (Some three_images) [[2]]) (Some ''https://b/p.png'')
          (Some ''https://b/q.png'') 3 32 start)))) = 2
   \<and> (\<exists>uri. snd (writes (emitted start (snd (generate_vto_image
          (stub_env (Some three_images) [[2]]) (Some ''https://b/p.png'')
          (Some ''https://b/q.png'') 3 32 start))) ! 0) = Inr uri)
   \<and> contents (fst (writes (emitted start (snd (generate_vto_image
          (stub_env (Some three_images) [[2]]) (Some ''https://b/p.png'')
          (Some ''https://b/q.png'') 3 32 start))) ! 1)) = [2]"
proof -
  let ?part = "generate_vto_image (stub_env (Some three_images) [[2]])
          (Some ''https://b/p.png'') (Some ''https://b/q.png'') 3 32 start"
  let ?ws = "writes (emitted start (snd ?part))"
  let ?e = "PyError ''StorageWriteError'' (''vto_result_'' @ str_uuid 0 @ ''-1_.png'')"
  have run: "?part = (fst ?part, snd ?part)" by simp
  have "length (map snd ?ws) = 2"
    by (simp only: stub_run_refused_writes) simp
  then have lw: "length ?ws = 2" by simp
  have k: "(1::nat) \<le> 2" "2 \<le> length ?ws" using lw by simp_all
  have "map snd ?ws ! (2 - 1) = Inl ?e"
    by (simp only: stub_run_refused_writes) simp
  then have fails: "snd (?ws ! (2 - 1)) = Inl ?e" using lw by simp
  from generate_vto_image_write_failure[OF run k fails]
  obtain req response imgs where concl:
    "fst ?part = Inl ?e" "length ?ws = 2"
    "\<forall>j < 2 - 1. \<exists>uri. snd (?ws ! j) = Inr uri"
    "requests (emitted start (snd ?part)) = [(req, Inr response)]"
    "generated_images response = Some imgs"
    "\<forall>j < 2. data (imgs ! j) = Some (contents (fst (?ws ! j)))"
    by blast
  from concl(4) have "response = \<lparr>generated_images = Some three_images\<rparr>"
    by (simp only: stub_run_refused_requests) simp
  with concl(5) have imgs: "imgs = three_images" by simp
  from concl(3) have first: "\<exists>uri. snd (?ws ! 0) = Inr uri" by simp
  from concl(6) have "data (imgs ! 1) = Some (contents (fst (?ws ! 1)))" by simp
  then have second: "contents (fst (?ws ! 1)) = [2]"
    by (simp add: imgs three_images_def)
  from concl(1,2) first second show ?thesis by blast
qed

text \<open>
  C5. The claim: an unrecognized reference makes the call fail with the converter's
  error. It does not when the client cannot be created, line 38 running before the
  conversions: here the converter rejects the person reference, and the call fails with
  the error of \<open>genai.Client()\<close>, the converter not having been asked.
\<close>

theorem generate_vto_image_conversion_error_counterexample:
  "https_url_to_gcs_uri (no_client_env (Some three_images) []) (Some ''ftp://b/p.png'')
     = Inl (PyError ''ConversionError'' ''ftp://b/p.png'')
   \<and> fst (generate_vto_image (no_client_env (Some three_images) []) (Some ''ftp://b/p.png'')
            (Some ''https://b/q.png'') 3 32 start)
       = Inl (ValueError ''Missing key inputs argument!'')
   \<and> fst (generate_vto_image (no_client_env (Some three_images) []) (Some ''ftp://b/p.png'')
            (Some ''https://b/q.png'') 3 32 start)
       \<noteq> Inl (PyError ''ConversionError'' ''ftp://b/p.png'')
   \<and> conversions (emitted start (snd (generate_vto_image
         (no_client_env (Some three_images) []) (Some ''ftp://b/p.png'')
         (Some ''https://b/q.png'') 3 32 start))) = []"
  by (simp only: no_client_run_fst no_client_run_effects)
     (simp add: no_client_env_def stub_env_def stub_convert_def ValueError_def)

text \<open>
  C5, as the code has it. When the converter rejects the person reference, or accepts it
  and rejects the product reference, the call sends no request, loads no image, draws no
  identifier and writes nothing; the events it logged are the calls it made. When the
  client has been created, the call fails with the converter's error, the person
  reference having been converted first and the product reference second, and the world
  is as the creation of the client left it. When the client cannot be created, the call
  fails with that error, and the converter is not asked.
\<close>

theorem generate_vto_image_conversion_error:
  assumes run: "generate_vto_image env person_gcs_url product_gcs_url sample_count base_steps s
                  = (r, s')"
    and unrecognized: "(\<exists>e. https_url_to_gcs_uri env person_gcs_url = Inl e)
                     \<or> (\<exists>e. https_url_to_gcs_uri env product_gcs_url = Inl e)"
  shows "requests (emitted s s') = []
       \<and> loads (emitted s s') = []
       \<and> identifiers (emitted s s') = []
       \<and> writes (emitted s s') = []
       \<and> replay env (emitted s s') (world s) = Some (world s')
       \<and> (\<forall>w1. genai_Client env (world s) = (Inr (), w1) \<longrightarrow>
            world s' = w1
          \<and> (\<exists>e. r = Inl e
               \<and> (https_url_to_gcs_uri env person_gcs_url = Inl e
                    \<and> conversions (emitted s s') = [(person_gcs_url, Inl e)]
                  \<or> (\<exists>person_gcs_uri.
                        https_url_to_gcs_uri env person_gcs_url = Inr person_gcs_uri
                      \<and> https_url_to_gcs_uri env product_gcs_url = Inl e
                      \<and> conversions (emitted s s')
                          = [(person_gcs_url, Inr person_gcs_uri), (product_gcs_url, Inl e)]))))
       \<and> (\<forall>e w1. genai_Client env (world s) = (Inl e, w1) \<longrightarrow>
            r = Inl e \<and> world s' = w1 \<and> conversions (emitted s s') = [])"
  using run
proof (cases rule: generate_vto_image_paths)
  case (client_fails e)
  then show ?thesis by simp
next
  case (person_fails e)
  then show ?thesis by simp
next
  case (product_fails pu e)
  then show ?thesis by simp
next
  case (person_load_fails w1 pu qu e)
  with unrecognized show ?thesis by simp
next
  case (product_load_fails w1 w2 pu qu img1 e)
  with unrecognized show ?thesis by simp
next
  case (service_fails w1 w2 w3 pu qu img1 img2 e)
  with unrecognized show ?thesis by simp
next
  case (no_images w1 w2 w3 pu qu img1 img2 response)
  with unrecognized show ?thesis by simp
next
  case (stored w1 w2 w3 pu qu img1 img2 response imgs)
  with unrecognized show ?thesis by simp
qed

theorem generate_vto_image_conversion_error_witness:
  "fst (generate_vto_image (stub_env (Some three_images) []) (Some ''https://b/p.png'')
          (Some ''ftp://b/q.png'') 3 32 start) = Inl (PyError ''ConversionError'' ''ftp://b/q.png'')
   \<and> conversions (emitted start (snd (generate_vto_image (stub_env (Some three_images) [])
          (Some ''https://b/p.png'') (Some ''ftp://b/q.png'') 3 32 start)))
       = [(Some ''https://b/p.png'', Inr ''gs://b/p.png''),
          (Some ''ftp://b/q.png'', Inl (PyError ''ConversionError'' ''ftp://b/q.png''))]
   \<and> requests (emitted start (snd (generate_vto_image (stub_env (Some three_images) [])
          (Some ''https://b/p.png'') (Some ''ftp://b/q.png'') 3 32 start))) = []
   \<and> writes (emitted start (snd (generate_vto_image (stub_env (Some three_images) [])
          (Some ''https://b/p.png'') (Some ''ftp://b/q.png'') 3 32 start))) = []
   \<and> world (snd (generate_vto_image (stub_env (Some three_images) [])
          (Some ''https://b/p.png'') (Some ''ftp://b/q.png'') 3 32 start)) = 0"
proof -
  let ?env = "stub_env (Some three_images) []"
  let ?run = "generate_vto_image ?env (Some ''https://b/p.png'') (Some ''ftp://b/q.png'') 3 32 start"
  have run: "?run = (fst ?run, snd ?run)" by simp
  have p: "https_url_to_gcs_uri ?env (Some ''https://b/p.png'') = Inr ''gs://b/p.png''"
    and q: "https_url_to_gcs_uri ?env (Some ''ftp://b/q.png'')
              = Inl (PyError ''ConversionError'' ''ftp://b/q.png'')"
    by (simp_all add: stub_env_def stub_convert_def)
  have client: "genai_Client ?env (world start) = (Inr (), 0)"
    by (simp add: stub_env_def start_def)
  have "(\<exists>e. https_url_to_gcs_uri ?env (Some ''https://b/p.png'') = Inl e)
      \<or> (\<exists>e. https_url_to_gcs_uri ?env (Some ''ftp://b/q.png'') = Inl e)"
    using q by simp
  from generate_vto_image_conversion_error[OF run this] client p q show ?thesis by auto
qed

text \<open>
  C6. The requests a call sends. Either it sends none, or it sends exactly one: then the
  client has been created, both references have been converted and both images loaded,
  and the request names the configured model, the image \<open>Image.from_file\<close> returned for
  the converted person reference, a list holding the one image it returned for the
  converted product reference, the caller's step count and the caller's output count.
  When the client is created and the converter returns two \<open>gs://\<close> locations, the call
  sends that one request, and its two images name the two converted locations. In every
  case the events the call logged are the calls it made, outcomes and effects included.
\<close>

theorem generate_vto_image_request:
  assumes run: "generate_vto_image env person_gcs_url product_gcs_url sample_count base_steps s
                  = (r, s')"
  shows "(requests (emitted s s') = []
          \<or> (\<exists>w1 w2 w3 person_gcs_uri product_gcs_uri person_img product_img out.
                genai_Client env (world s) = (Inr (), w1)
              \<and> https_url_to_gcs_uri env person_gcs_url = Inr person_gcs_uri
              \<and> https_url_to_gcs_uri env product_gcs_url = Inr product_gcs_uri
              \<and> Image_from_file env person_gcs_uri w1 = (Inr person_img, w2)
              \<and> Image_from_file env product_gcs_uri w2 = (Inr product_img, w3)
              \<and> requests (emitted s s') =
                  [(\<lparr>model = VTO_MODEL_ID (cfg env),
                     source = \<lparr>person_image = person_img,
                               product_images = [\<lparr>product_image = product_img\<rparr>]\<rparr>,
                     config = \<lparr>config_base_steps = base_steps,
                               config_number_of_images = sample_count\<rparr>\<rparr>, out)]))
       \<and> (\<forall>w1 person_gcs_uri product_gcs_uri.
              genai_Client env (world s) = (Inr (), w1)
            \<and> https_url_to_gcs_uri env person_gcs_url = Inr person_gcs_uri
            \<and> https_url_to_gcs_uri env product_gcs_url = Inr product_gcs_uri
            \<and> take 5 person_gcs_uri = ''gs://'' \<and> take 5 product_gcs_uri = ''gs://''
            \<longrightarrow> map fst (requests (emitted s s')) =
                  [\<lparr>model = VTO_MODEL_ID (cfg env),
                    source =
                      \<lparr>person_image = \<lparr>image_gcs_uri = Some person_gcs_uri,
                                        image_bytes = None, image_mime_type = None\<rparr>,
                       product_images =
                         [\<lparr>product_image = \<lparr>image_gcs_uri = Some product_gcs_uri,
                                             image_bytes = None, image_mime_type = None\<rparr>\<rparr>]\<rparr>,
                    config = \<lparr>config_base_steps = base_steps,
                              config_number_of_images = sample_count\<rparr>\<rparr>])
       \<and> replay env (emitted s s') (world s) = Some (world s')"
proof -
  let ?gcs = "\<lambda>location. \<lparr>image_gcs_uri = Some location, image_bytes = None,
                           image_mime_type = None\<rparr>"
  let ?req = "\<lambda>person_img product_img.
     \<lparr>model = VTO_MODEL_ID (cfg env),
      source = \<lparr>person_image = person_img,
                product_images = [\<lparr>product_image = product_img\<rparr>]\<rparr>,
      config = \<lparr>config_base_steps = base_steps, config_number_of_images = sample_count\<rparr>\<rparr>"
  have loaded: "img = ?gcs location"
    if "take 5 location = ''gs://''" "Image_from_file env location w = (Inr img, w')"
    for location w img w'
    using that by (simp add: Image_from_file_def)
  have not_loaded: False
    if "take 5 location = ''gs://''" "Image_from_file env location w = (Inl e, w')"
    for location w e w'
    using that by (simp add: Image_from_file_def)
  have sent: "requests (emitted s s') = []
          \<or> (\<exists>w1 w2 w3 person_gcs_uri product_gcs_uri person_img product_img out.
                genai_Client env (world s) = (Inr (), w1)
              \<and> https_url_to_gcs_uri env person_gcs_url = Inr person_gcs_uri
              \<and> https_url_to_gcs_uri env product_gcs_url = Inr product_gcs_uri
              \<and> Image_from_file env person_gcs_uri w1 = (Inr person_img, w2)
              \<and> Image_from_file env product_gcs_uri w2 = (Inr product_img, w3)
              \<and> requests (emitted s s') = [(?req person_img product_img, out)])"
    using run
  proof (cases rule: generate_vto_image_paths)
    case (client_fails e)
    then show ?thesis by simp
  next
    case (person_fails e)
    then show ?thesis by simp
  next
    case (product_fails pu e)
    then show ?thesis by simp
  next
    case (person_load_fails w1 pu qu e)
    then show ?thesis by simp
  next
    case (product_load_fails w1 w2 pu qu img1 e)
    then show ?thesis by simp
  next
    case c: (service_fails w1 w2 w3 pu qu img1 img2 e)
    from c(1,2,3,4,5,11) show ?thesis by blast
  next
    case c: (no_images w1 w2 w3 pu qu img1 img2 response)
    from c(1,2,3,4,5,12) show ?thesis by blast
  next
    case c: (stored w1 w2 w3 pu qu img1 img2 response imgs)
    from c(1,2,3,4,5,12) show ?thesis by blast
  qed
  have named: "map fst (requests (emitted s s')) = [?req (?gcs pu') (?gcs qu')]"
    if client: "genai_Client env (world s) = (Inr (), w1')"
      and pu': "https_url_to_gcs_uri env person_gcs_url = Inr pu'"
      and qu': "https_url_to_gcs_uri env product_gcs_url = Inr qu'"
      and gs: "take 5 pu' = ''gs://''" "take 5 qu' = ''gs://''"
    for w1' pu' qu'
    using run
  proof (cases rule: generate_vto_image_paths)
    case (client_fails e)
    with client show ?thesis by simp
  next
    case (person_fails e)
    with pu' show ?thesis by simp
  next
    case (product_fails pu e)
    with qu' show ?thesis by simp
  next
    case c: (person_load_fails w1 pu qu e)
    from c(2) pu' have "pu = pu'" by simp
    with not_loaded[OF gs(1)] c(4) show ?thesis by blast
  next
    case c: (product_load_fails w1 w2 pu qu img1 e)
    from c(3) qu' have "qu = qu'" by simp
    with not_loaded[OF gs(2)] c(5) show ?thesis by blast
  next
    case c: (service_fails w1 w2 w3 pu qu img1 img2 e)
    from c(2,3) pu' qu' have eq: "pu = pu'" "qu = qu'" by simp_all
    from loaded[OF gs(1)] c(4) eq have "img1 = ?gcs pu'" by blast
    moreover from loaded[OF gs(2)] c(5) eq have "img2 = ?gcs qu'" by blast
    ultimately show ?thesis using c(11) by simp
  next
    case c: (no_images w1 w2 w3 pu qu img1 img2 response)
    from c(2,3) pu' qu' have eq: "pu = pu'" "qu = qu'" by simp_all
    from loaded[OF gs(1)] c(4) eq have "img1 = ?gcs pu'" by blast
    moreover from loaded[OF gs(2)] c(5) eq have "img2 = ?gcs qu'" by blast
    ultimately show ?thesis using c(12) by simp
  next
    case c: (stored w1 w2 w3 pu qu img1 img2 response imgs)
    from c(2,3) pu' qu' have eq: "pu = pu'" "qu = qu'" by simp_all
    from loaded[OF gs(1)] c(4) eq have "img1 = ?gcs pu'" by blast
    moreover from loaded[OF gs(2)] c(5) eq have "img2 = ?gcs qu'" by blast
    ultimately show ?thesis using c(12) by simp
  qed
  have logged: "replay env (emitted s s') (world s) = Some (world s')"
    using run by (cases rule: generate_vto_image_paths) assumption+
  from sent named logged show ?thesis by blast
qed

theorem generate_vto_image_request_witness:
  "map fst (requests (emitted start
      (snd (generate_vto_image (stub_env (Some three_images) []) (Some ''https://b/p.png'')
              (Some ''https://b/q.png'') 3 32 start))))
   = [\<lparr>model = ''vto-model'',
       source = \<lparr>person_image = \<lparr>image_gcs_uri = Some ''gs://b/p.png'', image_bytes = None,
                                  image_mime_type = None\<rparr>,
                 product_images =
                   [\<lparr>product_image = \<lparr>image_gcs_uri = Some ''gs://b/q.png'',
                                       image_bytes = None, image_mime_type = None\<rparr>\<rparr>]\<rparr>,
       config = \<lparr>config_base_steps = 32, config_number_of_images = 3\<rparr>\<rparr>]"
proof -
  let ?env = "stub_env (Some three_images) []"
  let ?run = "generate_vto_image ?env (Some ''https://b/p.png'') (Some ''https://b/q.png'')
                3 32 start"
  have run: "?run = (fst ?run, snd ?run)" by simp
  have given: "genai_Client ?env (world start) = (Inr (), 0)
       \<and> https_url_to_gcs_uri ?env (Some ''https://b/p.png'') = Inr ''gs://b/p.png''
       \<and> https_url_to_gcs_uri ?env (Some ''https://b/q.png'') = Inr ''gs://b/q.png''
       \<and> take 5 ''gs://b/p.png'' = ''gs://'' \<and> take 5 ''gs://b/q.png'' = ''gs://''"
    by (simp add: stub_env_def stub_convert_def start_def)
  have model: "VTO_MODEL_ID (cfg ?env) = ''vto-model''" by (simp add: stub_env_def)
  from generate_vto_image_request[OF run] given show ?thesis
    unfolding model by blast
qed



text \<open>
  C8. \<open>call_virtual_try_on\<close> does what \<open>generate_vto_image\<close> does when given the same
  two references, 32 as step count and the caller's output count, or 1 when the caller
  gave none: the same effects on the world and the same trace. Seen from the outside: the
  converter is asked about the person reference first and then about the product
  reference, both exactly as the caller passed them (unset included), unless the client
  could not be created, in which case it is not asked at all; and every request sent
  carries 32 steps and that count.
\<close>

theorem call_virtual_try_on_arguments:
  "snd (call_virtual_try_on env person_image_uri product_image_uri sample_count s)
     = snd (generate_vto_image env person_image_uri product_image_uri
              (case sample_count of None \<Rightarrow> 1 | Some n \<Rightarrow> n) 32 s)
   \<and> call_virtual_try_on env person_image_uri product_image_uri None s
     = call_virtual_try_on env person_image_uri product_image_uri (Some 1) s
   \<and> (map fst (conversions (emitted s
         (snd (call_virtual_try_on env person_image_uri product_image_uri sample_count s))))
         = [person_image_uri]
      \<or> map fst (conversions (emitted s
         (snd (call_virtual_try_on env person_image_uri product_image_uri sample_count s))))
         = [person_image_uri, product_image_uri]
      \<or> conversions (emitted s
         (snd (call_virtual_try_on env person_image_uri product_image_uri sample_count s)))
         = []
        \<and> (\<exists>e w1. genai_Client env (world s) = (Inl e, w1)))
   \<and> (\<forall>(req, out) \<in> set (requests (emitted s
         (snd (call_virtual_try_on env person_image_uri product_image_uri sample_count s)))).
        config req = \<lparr>config_base_steps = 32,
                       config_number_of_images = (case sample_count of None \<Rightarrow> 1 | Some n \<Rightarrow> n)\<rparr>)"
proof -
  let ?n = "case sample_count of None \<Rightarrow> 1 | Some n \<Rightarrow> n"
  obtain r s' where run:
    "generate_vto_image env person_image_uri product_image_uri ?n 32 s = (r, s')"
    by (cases "generate_vto_image env person_image_uri product_image_uri ?n 32 s")
  have same: "snd (call_virtual_try_on env person_image_uri product_image_uri sample_count s) = s'"
    using run by (cases r) (simp_all add: call_virtual_try_on_def)
  have default: "call_virtual_try_on env person_image_uri product_image_uri None s
     = call_virtual_try_on env person_image_uri product_image_uri (Some 1) s"
    by (simp add: call_virtual_try_on_def)
  have conv: "map fst (conversions (emitted s s')) = [person_image_uri]
      \<or> map fst (conversions (emitted s s')) = [person_image_uri, product_image_uri]
      \<or> conversions (emitted s s') = []
        \<and> (\<exists>e w1. genai_Client env (world s) = (Inl e, w1))"
    using run
  proof (cases rule: generate_vto_image_paths)
    case c: (client_fails e)
    from c(1,5) show ?thesis by blast
  next
    case c: (person_fails e)
    from c(6) show ?thesis by simp
  next
    case c: (product_fails pu e)
    from c(7) show ?thesis by simp
  next
    case c: (person_load_fails w1 pu qu e)
    from c(8) show ?thesis by simp
  next
    case c: (product_load_fails w1 w2 pu qu img1 e)
    from c(9) show ?thesis by simp
  next
    case c: (service_fails w1 w2 w3 pu qu img1 img2 e)
    from c(9) show ?thesis by simp
  next
    case c: (no_images w1 w2 w3 pu qu img1 img2 response)
    from c(10) show ?thesis by simp
  next
    case c: (stored w1 w2 w3 pu qu img1 img2 response imgs)
    from c(10) show ?thesis by simp
  qed
  have req: "\<forall>(req, out) \<in> set (requests (emitted s s')).
        config req = \<lparr>config_base_steps = 32, config_number_of_images = ?n\<rparr>"
    using run
  proof (cases rule: generate_vto_image_paths)
    case c: (client_fails e)
    from c(7) show ?thesis by simp
  next
    case c: (person_fails e)
    from c(8) show ?thesis by simp
  next
    case c: (product_fails pu e)
    from c(9) show ?thesis by simp
  next
    case c: (person_load_fails w1 pu qu e)
    from c(10) show ?thesis by simp
  next
    case c: (product_load_fails w1 w2 pu qu img1 e)
    from c(11) show ?thesis by simp
  next
    case c: (service_fails w1 w2 w3 pu qu img1 img2 e)
    from c(11) show ?thesis by simp
  next
    case c: (no_images w1 w2 w3 pu qu img1 img2 response)
    from c(12) show ?thesis by simp
  next
    case c: (stored w1 w2 w3 pu qu img1 img2 response imgs)
    from c(12) show ?thesis by simp
  qed
  show ?thesis using same default conv req run by simp
qed

theorem call_virtual_try_on_arguments_witness:
  "map (config \<circ> fst) (requests (emitted start
     (snd (call_virtual_try_on (stub_env (Some three_images) []) (Some ''https://b/p.png'')
             (Some ''https://b/q.png'') None start))))
   = [\<lparr>config_base_steps = 32, config_number_of_images = 1\<rparr>]"
proof -
  let ?call = "call_virtual_try_on (stub_env (Some three_images) []) (Some ''https://b/p.png'')
             (Some ''https://b/q.png'') None start"
  note inst = call_virtual_try_on_arguments[of "stub_env (Some three_images) []"
      "Some ''https://b/p.png''" "Some ''https://b/q.png''" None start]
  have same: "snd ?call = snd (generate_vto_image (stub_env (Some three_images) [])
      (Some ''https://b/p.png'') (Some ''https://b/q.png'') 1 32 start)"
    using conjunct1[OF inst] by (simp only: option.case)
  have "length (requests (emitted start (snd ?call))) = 1"
    by (simp only: same stub_run_stored_requests[of 1 32] list.size One_nat_def add_0)
  then obtain req out where one: "requests (emitted start (snd ?call)) = [(req, out)]"
    by (cases "requests (emitted start (snd ?call))") auto
  have "\<forall>(req, out) \<in> set (requests (emitted start (snd ?call))).
          config req = \<lparr>config_base_steps = 32, config_number_of_images = 1\<rparr>"
    using conjunct2[OF conjunct2[OF conjunct2[OF inst]]] by (simp only: option.case)
  with one have "config req = \<lparr>config_base_steps = 32, config_number_of_images = 1\<rparr>"
    by simp
  with one show ?thesis by simp
qed

text \<open>
  C9. When \<open>generate_vto_image\<close> fails, \<open>call_virtual_try_on\<close> fails with the same error
  and leaves the same state: the error is neither caught nor translated, and no partial
  result is returned.
\<close>

theorem call_virtual_try_on_propagates:
  assumes "generate_vto_image env person_image_uri product_image_uri
             (case sample_count of None \<Rightarrow> 1 | Some n \<Rightarrow> n) 32 s = (Inl e, s')"
  shows "call_virtual_try_on env person_image_uri product_image_uri sample_count s = (Inl e, s')"
  using assms by (simp add: call_virtual_try_on_def)

theorem call_virtual_try_on_propagates_witness:
  "fst (call_virtual_try_on (stub_env (Some three_images) []) None (Some ''https://b/q.png'')
          None start) = Inl (PyError ''ConversionError'' ''None'')"
proof -
  obtain s' where
    "generate_vto_image (stub_env (Some three_images) []) None (Some ''https://b/q.png'')
          (case None of None \<Rightarrow> 1 | Some n \<Rightarrow> n) 32 start =
        (Inl (PyError ''ConversionError'' ''None''), s')"
    using stub_run_unset_fst[of "Some three_images" "[]" "Some ''https://b/q.png''"
        "case None of None \<Rightarrow> 1 | Some n \<Rightarrow> n" 32]
    by (metis prod.collapse)
  from call_virtual_try_on_propagates[OF this] show ?thesis by simp
qed

text \<open>
  C10. In a call that succeeds, the file names given to the writer are pairwise distinct,
  whatever identifiers the generator returned, equal ones included: the text after the
  last hyphen of a name is the index of its image.
\<close>

theorem generate_vto_image_distinct_file_names:
  assumes run: "generate_vto_image env person_gcs_url product_gcs_url sample_count base_steps s
                  = (r, s')"
    and ok: "r = Inr gcs_uris"
  shows "distinct (map (file_name \<circ> fst) (writes (emitted s s')))"
  using run
proof (cases rule: generate_vto_image_paths)
  case (client_fails e)
  then show ?thesis by simp
next
  case (person_fails e)
  then show ?thesis by simp
next
  case (product_fails pu e)
  then show ?thesis by simp
next
  case (person_load_fails w1 pu qu e)
  then show ?thesis by simp
next
  case (product_load_fails w1 w2 pu qu img1 e)
  then show ?thesis by simp
next
  case (service_fails w1 w2 w3 pu qu img1 img2 e)
  then show ?thesis by simp
next
  case (no_images w1 w2 w3 pu qu img1 img2 response)
  then show ?thesis by simp
next
  case c: (stored w1 w2 w3 pu qu img1 img2 response imgs)
  let ?ws = "writes (emitted s s')"
  let ?ids = "identifiers (emitted s s')"
  have name: "(file_name \<circ> fst) (?ws ! i)
                = ''vto_result_'' @ str_uuid (?ids ! i) @ ''-'' @ str_nat i @ ''_.png''"
    if "i < length ?ws" for i
    using c(14) that by (auto simp: vto_write_def)
  have "i = j" if "i < length ?ws" "j < length ?ws"
    "(file_name \<circ> fst) (?ws ! i) = (file_name \<circ> fst) (?ws ! j)" for i j
  proof -
    from that have "''vto_result_'' @ str_uuid (?ids ! i) @ ''-'' @ str_nat i @ ''_.png''
         = ''vto_result_'' @ str_uuid (?ids ! j) @ ''-'' @ str_nat j @ ''_.png''"
      by (simp only: name)
    then show ?thesis by (rule vto_file_name_index)
  qed
  then show ?thesis
    by (auto simp: distinct_conv_nth simp del: comp_apply)
qed

theorem generate_vto_image_distinct_file_names_witness:
  "identifiers (emitted start (snd (generate_vto_image
          (stub_env (Some three_images) []) (Some ''https://b/p.png'')
          (Some ''https://b/q.png'') 3 32 start))) = [0, 0, 0]
   \<and> distinct (map (file_name \<circ> fst) (writes (emitted start (snd (generate_vto_image
          (stub_env (Some three_images) []) (Some ''https://b/p.png'')
          (Some ''https://b/q.png'') 3 32 start)))))"
proof -
  let ?full = "generate_vto_image (stub_env (Some three_images) []) (Some ''https://b/p.png'')
          (Some ''https://b/q.png'') 3 32 start"
  have run: "?full = (fst ?full, snd ?full)" by simp
  from generate_vto_image_distinct_file_names[OF run stub_run_stored_fst[of 3 32]]
    stub_run_stored_identifiers[of 3 32]
  show ?thesis by blast
qed

end
